theory Spec2Isabelle
  imports Main "HOL-Library.Sublist" "HOL-Library.Multiset"
begin

section \<open>Taxonomy tree navigation (pyham/taxonomy.py)\<close>

text \<open>
  The species tree is an ete3 tree: every \<open>TreeNode\<close> object has a name, a list of
  children and an \<open>up\<close> link to its parent (\<open>None\<close> at the root). A node object is
  identified here by its position in the tree: the child indices met when walking from
  the node up to the root, innermost first. The root is \<open>[]\<close>, and the node \<open>i # p\<close> is
  child number \<open>i\<close> of the node \<open>p\<close>. ete3 nodes define no \<open>__eq__\<close>, so \<open>==\<close> between two
  nodes of one tree is object identity, which is equality of positions.
\<close>

type_synonym node = "nat list"

text \<open>\<open>TreeNode.up\<close>: the parent of a node, \<open>None\<close> at the root.\<close>

fun up :: "node \<Rightarrow> node option" where
  "up [] = None"
| "up (i # p) = Some p"

text \<open>
  ete3's \<open>TreeNode.iter_ancestors\<close>: follows \<open>up\<close> from the node (exclusive) to the
  root (inclusive), youngest first.
\<close>

fun iter_ancestors :: "node \<Rightarrow> node list" where
  "iter_ancestors [] = []"
| "iter_ancestors (i # p) = p # iter_ancestors p"

text \<open>\<open>a\<close> is a strict ancestor of \<open>n\<close>: it is met when walking up from \<open>n\<close>.\<close>

definition is_ancestor :: "node \<Rightarrow> node \<Rightarrow> bool" where
  "is_ancestor a n = (a \<in> set (iter_ancestors n))"

text \<open>
  \<open>Taxonomy.get_path_up\<close>: the loop over \<open>lowest_node.iter_ancestors()\<close> that appends
  each ancestor to \<open>intermediate_level\<close> and breaks at \<open>ancestor_node\<close>.
\<close>

fun get_path_up_loop :: "node list \<Rightarrow> node \<Rightarrow> node list \<Rightarrow> node list" where
  "get_path_up_loop [] ancestor_node intermediate_level = intermediate_level"
| "get_path_up_loop (tax # rest) ancestor_node intermediate_level =
     (if tax = ancestor_node then intermediate_level
      else get_path_up_loop rest ancestor_node (intermediate_level @ [tax]))"

definition get_path_up :: "node \<Rightarrow> node \<Rightarrow> node list" where
  "get_path_up lowest_node ancestor_node =
     get_path_up_loop (iter_ancestors lowest_node) ancestor_node []"


section \<open>Errors and dynamically typed arguments\<close>

text \<open>The exceptions the modelled code raises.\<close>

datatype error =
  TypeError | EvolutionaryConceptError | KeyError | AttributeError | IndexError

text \<open>
  An argument checked with \<open>isinstance(x, C)\<close>: either an object of class \<open>C\<close> (or of
  a subclass), or an object of some other type, of which only the type name matters.
\<close>

datatype 'a arg = Of 'a | Other string

text \<open>References to genome objects and to gene objects (\<open>Gene\<close> or \<open>HOG\<close>).\<close>

type_synonym gid = nat
type_synonym agid = nat

section \<open>Genomes (ham/genome.py)\<close>

text \<open>
  \<open>Genome\<close> and its two subclasses. \<open>Genome\<close> declares no abstract method, so the base
  class (or a third subclass) can be instantiated; \<open>GenomeBase\<close> stands for such an
  object.
\<close>

datatype genome_class = GenomeBase | AncestralGenome | ExtantGenome

text \<open>
  The attributes of a genome object. \<open>genes\<close> holds references to the gene objects
  appended by \<open>add_gene\<close>; \<open>genome_name\<close> is the attribute \<open>name\<close> (\<open>None\<close>, or the
  name copied from a tree node); \<open>ancestral_clustering\<close> is the cache of
  \<open>AncestralGenome\<close>, a dictionary from HOG to its extant genes, \<open>None\<close> until first
  computed.
\<close>

record genome =
  cls :: genome_class
  genes :: "agid list"
  taxon :: "node option"
  genome_name :: "string option"
  ancestral_clustering :: "(agid \<rightharpoonup> agid list) option"

text \<open>
  \<open>Genome.set_taxon\<close>: both checks come before the assignment. The returned genome
  is the receiver after the call, whether or not the call raised.
\<close>

definition set_taxon :: "genome \<Rightarrow> node arg \<Rightarrow> (error + unit) \<times> genome" where
  "set_taxon self t =
     (case t of
        Other ty \<Rightarrow> (Inl TypeError, self)
      | Of tn \<Rightarrow>
          if taxon self \<noteq> None \<and> Some tn \<noteq> taxon self
          then (Inl EvolutionaryConceptError, self)
          else (Inr (), self\<lparr>taxon := Some tn\<rparr>))"

text \<open>
  \<open>AncestralGenome.get_ancestral_clustering\<close>. The loop fills the dictionary with
  \<open>hog.get_all_descendant_genes()\<close> for every element of \<open>self.genes\<close>; that method
  belongs to the gene classes and is a parameter here.
\<close>

fun clustering_loop ::
  "(agid \<Rightarrow> agid list) \<Rightarrow> agid list \<Rightarrow> (agid \<rightharpoonup> agid list) \<Rightarrow> (agid \<rightharpoonup> agid list)" where
  "clustering_loop get_all_descendant_genes [] clustering = clustering"
| "clustering_loop get_all_descendant_genes (hog # rest) clustering =
     clustering_loop get_all_descendant_genes rest
       (clustering(hog \<mapsto> get_all_descendant_genes hog))"

definition get_ancestral_clustering ::
  "(agid \<Rightarrow> agid list) \<Rightarrow> genome \<Rightarrow> (agid \<rightharpoonup> agid list) \<times> genome" where
  "get_ancestral_clustering get_all_descendant_genes self =
     (case ancestral_clustering self of
        None \<Rightarrow>
          (let clustering = clustering_loop get_all_descendant_genes (genes self) Map.empty
           in (clustering, self\<lparr>ancestral_clustering := Some clustering\<rparr>))
      | Some clustering \<Rightarrow> (clustering, self))"

section \<open>The species tree and Taxonomy construction (pyham/taxonomy.py)\<close>

text \<open>
  An entry of \<open>phyloxml_clade.taxonomy\<close> as the name lookup reads it: the scientific
  name and the code, each a string, or \<open>None\<close> where the file gives none.
\<close>

record phylo_taxonomy =
  scientific_name :: "string option"
  code :: "string option"

text \<open>
  A node of the ete3 tree as \<open>Taxonomy.__init__\<close> reads and writes it: its \<open>name\<close> (a
  string or \<open>None\<close>), the list \<open>phyloxml_clade.taxonomy\<close> (read for phyloxml trees only,
  possibly empty), the \<open>depth\<close> feature and the children.
\<close>

datatype etree =
  TreeNode (name: "string option") (clade_taxonomy: "phylo_taxonomy list")
    (depth: "nat option") (children: "etree list")

definition is_leaf :: "etree \<Rightarrow> bool" where
  "is_leaf n = (children n = [])"

text \<open>Iterating over a node (\<open>for leaf in node\<close>) yields the leaves below it.\<close>

fun iter_leaves :: "etree \<Rightarrow> etree list" where
  "iter_leaves (TreeNode n tx d ch) =
     (if ch = [] then [TreeNode n tx d ch] else concat (map iter_leaves ch))"

text \<open>
  \<open>TreeNode.traverse()\<close> with its default strategy, level order: a queue that starts
  with the root; each visited node appends its children.
\<close>

function levelorder :: "etree list \<Rightarrow> etree list" where
  "levelorder [] = []"
| "levelorder (n # tovisit) = n # levelorder (tovisit @ children n)"
  by pat_completeness auto
termination
proof (relation "measure (\<lambda>q. sum_list (map size q))")
  show "wf (measure (\<lambda>q. sum_list (map size q)))" by simp
next
  fix n :: etree and tovisit :: "etree list"
  have "sum_list (map size (children n)) < size n"
    by (cases n) (simp add: size_list_conv_sum_list)
  then show "(tovisit @ children n, n # tovisit) \<in> measure (\<lambda>q. sum_list (map size q))"
    by simp
qed

definition traverse :: "etree \<Rightarrow> etree list" where
  "traverse t = levelorder [t]"

text \<open>The node object at a position, if the tree has one there.\<close>

fun subtree :: "etree \<Rightarrow> nat list \<Rightarrow> etree option" where
  "subtree t [] = Some t"
| "subtree t (i # path) =
     (if i < length (children t) then subtree (children t ! i) path else None)"

definition node_at :: "etree \<Rightarrow> node \<Rightarrow> etree option" where
  "node_at t n = subtree t (rev n)"

text \<open>\<open>str(x)\<close> of a name.\<close>

definition py_str :: "string option \<Rightarrow> string" where
  "py_str x = (case x of None \<Rightarrow> ''None'' | Some s \<Rightarrow> s)"

text \<open>\<open>node.phyloxml_clade.taxonomy[0]\<close>: indexing an empty list raises \<open>IndexError\<close>.\<close>

definition taxonomy_0 :: "etree \<Rightarrow> error + phylo_taxonomy" where
  "taxonomy_0 node =
     (case clade_taxonomy node of [] \<Rightarrow> Inl IndexError | tx # rest \<Rightarrow> Inr tx)"

text \<open>
  \<open>Taxonomy._get_name_phyloxml\<close>, branch by branch. Every test is \<open>!= ''\<close>, which \<open>None\<close>
  passes, so a name, scientific name or code that is \<open>None\<close> is returned as it is. With
  no tag, the second \<open>if\<close> reads \<open>taxonomy[0]\<close> only after \<open>node.name == ''\<close> has held. A
  tag that is none of the three known ones falls off the end and returns \<open>None\<close>.
\<close>

definition get_name_phyloxml :: "string option \<Rightarrow> etree \<Rightarrow> error + string option" where
  "get_name_phyloxml tag node =
     (if tag = None then
        (if name node \<noteq> Some '''' then Inr (name node)
         else if name node = Some '''' then
           (case taxonomy_0 node of
              Inl e \<Rightarrow> Inl e
            | Inr tx \<Rightarrow>
                if scientific_name tx \<noteq> Some '''' then Inr (scientific_name tx)
                else Inl KeyError)
         else Inl KeyError)
      else if tag = Some ''clade_name'' then
        (if name node \<noteq> Some '''' then Inr (name node) else Inl KeyError)
      else if tag = Some ''taxonomy_scientific_name'' then
        (case taxonomy_0 node of
           Inl e \<Rightarrow> Inl e
         | Inr tx \<Rightarrow>
             if scientific_name tx \<noteq> Some '''' then Inr (scientific_name tx)
             else Inl KeyError)
      else if tag = Some ''taxonomy_code'' then
        (case taxonomy_0 node of
           Inl e \<Rightarrow> Inl e
         | Inr tx \<Rightarrow> if code tx \<noteq> Some '''' then Inr (code tx) else Inl KeyError)
      else Inr None)"

text \<open>
  The loop of \<open>_build_tree\<close> for a phyloxml tree, over \<open>tree.traverse()\<close>: every leaf,
  and every internal node when \<open>use_internal_name\<close> is set, is looked up and gets the
  result as its name. A lookup reads the name and the taxonomy of the visited node only,
  before that node is renamed; an assignment changes the name of the visited node only;
  no node is visited twice. So every lookup sees the node as it was parsed, and the loop
  is the lookups in the order of the traversal, which decide whether it raises and what,
  followed by the tree with the looked-up names.
\<close>

fun build_tree_loop :: "bool \<Rightarrow> string option \<Rightarrow> etree list \<Rightarrow> error + unit" where
  "build_tree_loop internal tag [] = Inr ()"
| "build_tree_loop internal tag (node # rest) =
     (if is_leaf node then
        (case get_name_phyloxml tag node of
           Inl e \<Rightarrow> Inl e
         | Inr nn \<Rightarrow> build_tree_loop internal tag rest)
      else if internal then
        (case get_name_phyloxml tag node of
           Inl e \<Rightarrow> Inl e
         | Inr nn \<Rightarrow> build_tree_loop internal tag rest)
      else build_tree_loop internal tag rest)"

fun assigned_names :: "bool \<Rightarrow> string option \<Rightarrow> etree \<Rightarrow> etree" where
  "assigned_names internal tag (TreeNode n tx d ch) =
     TreeNode
       (if ch = [] \<or> internal then
          (case get_name_phyloxml tag (TreeNode n tx d ch) of Inl e \<Rightarrow> n | Inr nn \<Rightarrow> nn)
        else n)
       tx d (map (assigned_names internal tag) ch)"

text \<open>
  \<open>Taxonomy._build_tree\<close>, from the tree that ete3 parsed out of \<open>tree_file\<close>. Reading
  and parsing the input are ete3's; a format that is none of the three returns \<open>None\<close>.
\<close>

definition build_tree ::
  "etree \<Rightarrow> string \<Rightarrow> bool \<Rightarrow> string option \<Rightarrow> error + etree option" where
  "build_tree parsed format internal tag =
     (if format = ''newick_string'' then Inr (Some parsed)
      else if format = ''newick'' then Inr (Some parsed)
      else if format = ''phyloxml'' then
        (case build_tree_loop internal tag (traverse parsed) of
           Inl e \<Rightarrow> Inl e
         | Inr u \<Rightarrow> Inr (Some (assigned_names internal tag parsed)))
      else Inr None)"

text \<open>
  \<open>Taxonomy.set_taxon_name\<close>: the names of the leaves below the node, each followed by
  a slash, without the last character.
\<close>

definition set_taxon_name :: "etree \<Rightarrow> string option" where
  "set_taxon_name node =
     Some (butlast (concat (map (\<lambda>leaf. py_str (name leaf) @ ''/'') (iter_leaves node))))"

text \<open>
  The renaming part of \<open>Taxonomy._generate_internal_node_name\<close>: unless
  \<open>use_internal_name\<close> is set, every internal node is named after its leaves. Leaves
  keep their names, so the postorder of the source does not show in the result. The
  rest of the method writes \<open>tree_str\<close>, which nothing here reads.
\<close>

fun generate_internal_node_name :: "bool \<Rightarrow> etree \<Rightarrow> etree" where
  "generate_internal_node_name internal (TreeNode n tx d ch) =
     (if internal then TreeNode n tx d ch
      else if ch = [] then TreeNode n tx d ch
      else TreeNode (set_taxon_name (TreeNode n tx d ch)) tx d
             (map (generate_internal_node_name internal) ch))"

text \<open>
  \<open>Taxonomy._check_consistency_names\<close>: the loop that fills \<open>leaf_names\<close> and
  \<open>int_names\<close>, then the two comparisons. The second compares \<open>len(set(int_names))\<close>
  with itself, as the source does.
\<close>

fun names_loop ::
  "string \<Rightarrow> string option \<Rightarrow> etree list \<Rightarrow> string option list \<times> string option list \<Rightarrow>
   error + string option list \<times> string option list" where
  "names_loop format tag [] (leaf_names, int_names) = Inr (leaf_names, int_names)"
| "names_loop format tag (node # rest) (leaf_names, int_names) =
     (if is_leaf node then
        (if format = ''phyloxml'' then
           (case get_name_phyloxml tag node of
              Inl e \<Rightarrow> Inl e
            | Inr nn \<Rightarrow>
                names_loop format tag rest
                  (if nn \<noteq> None then leaf_names @ [nn] else leaf_names, int_names))
         else names_loop format tag rest (leaf_names @ [name node], int_names))
      else
        (if format = ''phyloxml'' then
           (case get_name_phyloxml tag node of
              Inl e \<Rightarrow> Inl e
            | Inr nn \<Rightarrow>
                names_loop format tag rest
                  (leaf_names, if nn \<noteq> None then int_names @ [nn] else int_names))
         else names_loop format tag rest (leaf_names, int_names @ [name node])))"

definition check_consistency_names :: "string \<Rightarrow> string option \<Rightarrow> etree \<Rightarrow> error + unit" where
  "check_consistency_names format tag t =
     (case names_loop format tag (traverse t) ([], []) of
        Inl e \<Rightarrow> Inl e
      | Inr (leaf_names, int_names) \<Rightarrow>
          if length leaf_names \<noteq> card (set leaf_names) then Inl KeyError
          else if card (set int_names) \<noteq> card (set int_names) then Inl KeyError
          else Inr ())"

text \<open>\<open>Taxonomy._add_depth\<close>.\<close>

fun add_depth :: "etree \<Rightarrow> nat \<Rightarrow> etree" where
  "add_depth (TreeNode n tx d ch) dp =
     TreeNode n tx (Some dp) (map (\<lambda>k. add_depth k (dp + 1)) ch)"

record taxonomy =
  tree_format :: string
  use_internal_name :: bool
  phyloxml_species_name_tag :: "string option"
  tree :: etree
  internal_nodes :: "node set"
  leaves :: "node set"

text \<open>
  \<open>Taxonomy.__init__\<close>. When \<open>_build_tree\<close> has returned \<open>None\<close>, the next step calls a
  method of \<open>None\<close> (\<open>traverse\<close> or \<open>write\<close>) and raises \<open>AttributeError\<close>.
\<close>

definition Taxonomy_init ::
  "etree \<Rightarrow> string \<Rightarrow> bool \<Rightarrow> string option \<Rightarrow> error + taxonomy" where
  "Taxonomy_init parsed format internal tag =
     (case build_tree parsed format internal tag of
        Inl e \<Rightarrow> Inl e
      | Inr None \<Rightarrow> Inl AttributeError
      | Inr (Some t) \<Rightarrow>
          (let t1 = generate_internal_node_name internal t in
           case check_consistency_names format tag t1 of
             Inl e \<Rightarrow> Inl e
           | Inr u \<Rightarrow>
               Inr \<lparr>tree_format = format, use_internal_name = internal,
                    phyloxml_species_name_tag = tag, tree = add_depth t1 0,
                    internal_nodes = {}, leaves = {}\<rparr>))"


section \<open>Attaching genomes to tree nodes (pyham/taxonomy.py)\<close>

text \<open>
  The objects \<open>Taxonomy.add_genome_to_node\<close> touches: the taxonomy itself (its two
  tracker sets), the \<open>genome\<close> feature of the tree nodes, and the genome objects.
  \<open>add_feature\<close> stores whatever object it is given, so a feature holds an \<open>arg\<close>.
\<close>

record objects =
  taxonomy :: taxonomy
  node_genome :: "node \<rightharpoonup> gid arg"
  genome_objs :: "gid \<Rightarrow> genome"

text \<open>\<open>node.name\<close> of the node at a position (\<open>None\<close> also where the tree has no node).\<close>

definition node_name :: "taxonomy \<Rightarrow> node \<Rightarrow> string option" where
  "node_name tx n = (case node_at (tree tx) n of None \<Rightarrow> None | Some t \<Rightarrow> name t)"

text \<open>
  \<open>Taxonomy.add_genome_to_node\<close>, statement by statement: the feature is stored
  first, then \<open>genome.set_taxon(node)\<close> runs (an object that is no genome has no such
  method: \<open>AttributeError\<close>), then the class of the genome is looked at. The returned
  state is the one the call leaves behind, whether or not it raised.
\<close>

definition add_genome_to_node ::
  "'a objects_scheme \<Rightarrow> node \<Rightarrow> gid arg \<Rightarrow> (error + unit) \<times> 'a objects_scheme" where
  "add_genome_to_node s node genome =
     (let s1 = s\<lparr>node_genome := (node_genome s)(node \<mapsto> genome)\<rparr> in
      case genome of
        Other ty \<Rightarrow> (Inl AttributeError, s1)
      | Of g \<Rightarrow>
          (case set_taxon (genome_objs s1 g) (Of node) of
             (Inl e, self') \<Rightarrow> (Inl e, s1\<lparr>genome_objs := (genome_objs s1)(g := self')\<rparr>)
           | (Inr u, self') \<Rightarrow>
               (let s2 = s1\<lparr>genome_objs := (genome_objs s1)(g := self')\<rparr> in
                if cls self' = ExtantGenome then
                  (Inr (),
                   s2\<lparr>taxonomy := (taxonomy s2)\<lparr>leaves := insert node (leaves (taxonomy s2))\<rparr>\<rparr>)
                else if cls self' = AncestralGenome then
                  (Inr (),
                   s2\<lparr>genome_objs := (genome_objs s2)
                          (g := self'\<lparr>genome_name := node_name (taxonomy s2) node\<rparr>),
                      taxonomy := (taxonomy s2)
                          \<lparr>internal_nodes := insert node (internal_nodes (taxonomy s2))\<rparr>\<rparr>)
                else (Inl TypeError, s2))))"

section \<open>Genes and HOGs\<close>

text \<open>
  Modelled from the spec: ham/abstractgene.py (\<open>AbstractGene\<close>, \<open>Gene\<close>, \<open>HOG\<close>) is not
  among the sources; only its tests are. A \<open>Gene\<close> carries one optional taxon range, a
  \<open>HOG\<close> a set of them and its children (spec 3 and 4.1, tests
  \<open>test_cannot_add_multiple_taxon_ranges\<close> and \<open>test_several_taxon_ranges_possible\<close>);
  both carry an identifier, the owning genome and the parent link.
\<close>

datatype variant =
  Gene (gene_taxon: "string option")
| HOG (hog_taxon: "string set") (hog_children: "agid list")

text \<open>
  Modelled from the spec: the attributes of an \<open>AbstractGene\<close> (spec 3): identifier,
  variant with its taxon range, owning genome, parent.
\<close>

record abstractgene =
  ident :: "string option"
  variant :: variant
  ag_genome :: "gid option"
  parent :: "agid option"

text \<open>
  Modelled from the spec: \<open>set_taxon_range\<close>. On a \<open>Gene\<close>, a value different from
  the one already set is a conceptual violation and the same value is accepted again;
  on a \<open>HOG\<close> the value is added to the set of tags.
\<close>

definition set_taxon_range :: "abstractgene \<Rightarrow> string \<Rightarrow> (error + unit) \<times> abstractgene" where
  "set_taxon_range self tax =
     (case variant self of
        Gene t \<Rightarrow>
          if t \<noteq> None \<and> Some tax \<noteq> t then (Inl EvolutionaryConceptError, self)
          else (Inr (), self\<lparr>variant := Gene (Some tax)\<rparr>)
      | HOG ts ch \<Rightarrow> (Inr (), self\<lparr>variant := HOG (insert tax ts) ch\<rparr>))"

text \<open>
  Modelled from the spec: \<open>AbstractGene.set_genome\<close>, which sets the back-reference to
  the owning genome (spec 4.2).
\<close>

definition set_genome :: "abstractgene \<Rightarrow> gid \<Rightarrow> abstractgene" where
  "set_genome self g = self\<lparr>ag_genome := Some g\<rparr>"

text \<open>The analysis context: the objects above and the gene objects.\<close>

record ham = objects +
  gene_objs :: "agid \<Rightarrow> abstractgene"

text \<open>
  \<open>Genome.add_gene\<close> (ham/genome.py) on the genome object \<open>self\<close>: the type check, then
  the append, then \<open>gene.set_genome(self)\<close>.
\<close>

definition add_gene :: "ham \<Rightarrow> gid \<Rightarrow> agid arg \<Rightarrow> (error + unit) \<times> ham" where
  "add_gene h self gene =
     (case gene of
        Other ty \<Rightarrow> (Inl TypeError, h)
      | Of g \<Rightarrow>
          (Inr (),
           h\<lparr>genome_objs := (genome_objs h)
                (self := (genome_objs h self)\<lparr>genes := genes (genome_objs h self) @ [g]\<rparr>),
             gene_objs := (gene_objs h)(g := set_genome (gene_objs h g) self)\<rparr>))"

section \<open>The mapping engine\<close>

text \<open>
  Modelled from the spec: the module of \<open>HOGsMap\<close>, \<open>MapVertical\<close> and \<open>MapLateral\<close> is
  not among the sources; only tests/test_mapper.py is. The definitions below follow
  spec 3 and 4.3 to 4.5.
\<close>

record hogsmap =
  ancestor :: gid
  descendant :: gid
  upMap :: "agid \<rightharpoonup> agid option"
  GAIN :: "agid set"
  LOSS :: "agid set"
  SINGLE :: "agid \<rightharpoonup> agid"
  DUPLICATE :: "agid \<rightharpoonup> agid set"

text \<open>
  Modelled from the spec: the enclosing HOG of a gene object among the HOGs of one
  genome: its parent, when that genome owns it.
\<close>

definition enclosing_hog :: "ham \<Rightarrow> gid \<Rightarrow> agid \<Rightarrow> agid option" where
  "enclosing_hog h g a =
     (case parent (gene_objs h a) of
        None \<Rightarrow> None
      | Some p \<Rightarrow> if p \<in> set (genes (genome_objs h g)) then Some p else None)"

text \<open>
  Modelled from the spec: the upward walk of 4.3 step 2 through the intermediate
  levels, youngest first. A level with no genome attached, or with no enclosing HOG,
  ends the walk with \<open>None\<close>.
\<close>

fun walk_up :: "ham \<Rightarrow> node list \<Rightarrow> agid option \<Rightarrow> agid option" where
  "walk_up h [] cur = cur"
| "walk_up h (level # levels) cur =
     (case cur of
        None \<Rightarrow> None
      | Some a \<Rightarrow>
          (case node_genome h level of
             Some (Of g) \<Rightarrow> walk_up h levels (enclosing_hog h g a)
           | _ \<Rightarrow> None))"

text \<open>
  Modelled from the spec: the HOG of the ancestor genome a descendant gene maps to
  (4.3 steps 1 and 2): walk through the levels of \<open>get_path_up\<close>, then resolve the
  enclosing HOG at the ancestor's level.
\<close>

definition map_up :: "ham \<Rightarrow> gid \<Rightarrow> node \<Rightarrow> node \<Rightarrow> agid \<Rightarrow> agid option" where
  "map_up h anc tanc tdesc a =
     (case walk_up h (get_path_up tdesc tanc) (Some a) of
        None \<Rightarrow> None
      | Some top_hog \<Rightarrow> enclosing_hog h anc top_hog)"

text \<open>
  Modelled from the spec: the descendant genes that map to one ancestor HOG (4.3
  step 4), as the elements of a set.
\<close>

definition mapped_genes :: "(agid \<Rightarrow> agid option) \<Rightarrow> agid list \<Rightarrow> agid \<Rightarrow> agid list" where
  "mapped_genes to_hog dgenes hog = remdups (filter (\<lambda>a. to_hog a = Some hog) dgenes)"

text \<open>
  Modelled from the spec: the derived structures of a map (4.3 steps 2 to 5): \<open>GAIN\<close>
  holds the genes with no ancestor HOG; an ancestor HOG with no mapped gene is in
  \<open>LOSS\<close>, with one it is a key of \<open>SINGLE\<close>, with two or more a key of \<open>DUPLICATE\<close>.
\<close>

definition build_maps :: "ham \<Rightarrow> gid \<Rightarrow> node \<Rightarrow> gid \<Rightarrow> node \<Rightarrow> hogsmap" where
  "build_maps h anc tanc desc tdesc =
     (let to_hog = map_up h anc tanc tdesc;
          dgenes = genes (genome_objs h desc);
          hogs = genes (genome_objs h anc)
      in \<lparr>ancestor = anc, descendant = desc,
          upMap = (\<lambda>a. if a \<in> set dgenes then Some (to_hog a) else None),
          GAIN = set (filter (\<lambda>a. to_hog a = None) dgenes),
          LOSS = set (filter (\<lambda>hog. mapped_genes to_hog dgenes hog = []) hogs),
          SINGLE = (\<lambda>hog. if hog \<in> set hogs
                       then (case mapped_genes to_hog dgenes hog of [x] \<Rightarrow> Some x | _ \<Rightarrow> None)
                       else None),
          DUPLICATE = (\<lambda>hog. if hog \<in> set hogs \<and> 2 \<le> length (mapped_genes to_hog dgenes hog)
                          then Some (set (mapped_genes to_hog dgenes hog))
                          else None)\<rparr>)"

text \<open>
  Modelled from the spec: the constructor of \<open>HOGsMap\<close> (4.3, validation). The
  argument lists the elements given for the Python set, which keeps one of each. The
  set must hold exactly two genomes, both with a taxon, one taxon a strict ancestor of
  the other; the older one becomes \<open>ancestor\<close> (an \<open>AncestralGenome\<close> in every analysis,
  since extant genomes sit on the leaves).
\<close>

definition HOGsMap_init :: "ham \<Rightarrow> gid list \<Rightarrow> error + hogsmap" where
  "HOGsMap_init h genome_set =
     (case remdups genome_set of
        [g1, g2] \<Rightarrow>
          (case (taxon (genome_objs h g1), taxon (genome_objs h g2)) of
             (Some t1, Some t2) \<Rightarrow>
               if is_ancestor t1 t2 then Inr (build_maps h g1 t1 g2 t2)
               else if is_ancestor t2 t1 then Inr (build_maps h g2 t2 g1 t1)
               else Inl TypeError
           | _ \<Rightarrow> Inl TypeError)
      | _ \<Rightarrow> Inl TypeError)"

text \<open>Exactly one of three statements holds.\<close>

definition exactly_one :: "bool \<Rightarrow> bool \<Rightarrow> bool \<Rightarrow> bool" where
  "exactly_one a b c = ((a \<and> \<not> b \<and> \<not> c) \<or> (\<not> a \<and> b \<and> \<not> c) \<or> (\<not> a \<and> \<not> b \<and> c))"

text \<open>
  Modelled from the spec: \<open>MapVertical\<close> (4.4) keeps the analysis context it was
  constructed with and at most one map.
\<close>

record map_vertical =
  mv_HAM :: "ham option"
  mv_hogmap :: "hogsmap option"
  mv_ancestor :: "gid option"
  mv_descendant :: "gid option"

text \<open>
  Modelled from the spec: \<open>MapVertical.add_map\<close> (4.4) raises \<open>TypeError\<close> for an
  argument that is no \<open>HOGsMap\<close>, when a map has been added already, and when the
  instance is bound to no analysis context.
\<close>

definition MapVertical_add_map ::
  "map_vertical \<Rightarrow> hogsmap arg \<Rightarrow> (error + unit) \<times> map_vertical" where
  "MapVertical_add_map self m =
     (case m of
        Other ty \<Rightarrow> (Inl TypeError, self)
      | Of hm \<Rightarrow>
          if mv_hogmap self \<noteq> None then (Inl TypeError, self)
          else if mv_HAM self = None then (Inl TypeError, self)
          else (Inr (), self\<lparr>mv_hogmap := Some hm, mv_ancestor := Some (ancestor hm),
                               mv_descendant := Some (descendant hm)\<rparr>))"

text \<open>
  Modelled from the spec: \<open>MapLateral\<close> (4.5) records the ancestor of the first map
  added and accumulates the maps and their descendants in insertion order.
\<close>

record map_lateral =
  ml_HAM :: "ham option"
  ml_maps :: "hogsmap list"
  ml_ancestor :: "gid option"
  ml_descendants :: "gid list"

text \<open>
  Modelled from the spec: \<open>MapLateral.add_map\<close> (4.5) raises \<open>TypeError\<close> for an
  argument that is no \<open>HOGsMap\<close> and for a map whose ancestor differs from the one
  recorded.
\<close>

definition MapLateral_add_map ::
  "map_lateral \<Rightarrow> hogsmap arg \<Rightarrow> (error + unit) \<times> map_lateral" where
  "MapLateral_add_map self m =
     (case m of
        Other ty \<Rightarrow> (Inl TypeError, self)
      | Of hm \<Rightarrow>
          if ml_ancestor self \<noteq> None \<and> ml_ancestor self \<noteq> Some (ancestor hm)
          then (Inl TypeError, self)
          else (Inr (), self\<lparr>ml_maps := ml_maps self @ [hm],
                               ml_ancestor := Some (ancestor hm),
                               ml_descendants := ml_descendants self @ [descendant hm]\<rparr>))"


section \<open>A small analysis, after the fixture of the tests\<close>

text \<open>
  The species tree of tests/test_mapper.py, with the internal names given:
  \<open>(((HUMAN,PANTR)Primates,(MOUSE,RATNO)Rodents)Euarchontoglires,XENTR)Vertebrates\<close>.
\<close>

definition leaf_node :: "string \<Rightarrow> etree" where
  "leaf_node n = TreeNode (Some n) [] None []"

definition inner_node :: "string \<Rightarrow> etree list \<Rightarrow> etree" where
  "inner_node n ch = TreeNode (Some n) [] None ch"

definition fixture_tree :: etree where
  "fixture_tree =
     inner_node ''Vertebrates''
       [inner_node ''Euarchontoglires''
          [inner_node ''Primates'' [leaf_node ''HUMAN'', leaf_node ''PANTR''],
           inner_node ''Rodents'' [leaf_node ''MOUSE'', leaf_node ''RATNO'']],
        leaf_node ''XENTR'']"

text \<open>Positions of the nodes that carry a genome below.\<close>

definition n_vertebrates :: node where "n_vertebrates = []"
definition n_euarchontoglires :: node where "n_euarchontoglires = [0]"
definition n_xentr :: node where "n_xentr = [1]"
definition n_primates :: node where "n_primates = [0, 0]"
definition n_rodents :: node where "n_rodents = [1, 0]"
definition n_human :: node where "n_human = [0, 0, 0]"
definition n_pantr :: node where "n_pantr = [1, 0, 0]"
definition n_mouse :: node where "n_mouse = [0, 1, 0]"

definition extant_genome :: "string \<Rightarrow> node \<Rightarrow> agid list \<Rightarrow> genome" where
  "extant_genome n t gs =
     \<lparr>cls = ExtantGenome, genes = gs, taxon = Some t, genome_name = Some n,
      ancestral_clustering = None\<rparr>"

definition ancestral_genome :: "string \<Rightarrow> node \<Rightarrow> agid list \<Rightarrow> genome" where
  "ancestral_genome n t gs =
     \<lparr>cls = AncestralGenome, genes = gs, taxon = Some t, genome_name = Some n,
      ancestral_clustering = None\<rparr>"

definition unattached_genome :: genome where
  "unattached_genome =
     \<lparr>cls = GenomeBase, genes = [], taxon = None, genome_name = None,
      ancestral_clustering = None\<rparr>"

text \<open>
  Genomes: 0 HUMAN, 1 MOUSE, 2 Primates, 3 Rodents, 4 Euarchontoglires, 5 Vertebrates,
  6 XENTR; every other reference is a genome of the base class with no taxon.
\<close>

definition fixture_genomes :: "gid \<Rightarrow> genome" where
  "fixture_genomes =
     (\<lambda>g. unattached_genome)
       (0 := extant_genome ''HUMAN'' n_human [1, 2, 3],
        1 := extant_genome ''MOUSE'' n_mouse [31, 32, 33, 34],
        2 := ancestral_genome ''Primates'' n_primates [201, 202, 203],
        3 := ancestral_genome ''Rodents'' n_rodents [301, 302, 303, 304],
        4 := ancestral_genome ''Euarchontoglires'' n_euarchontoglires [401, 402, 403, 404],
        5 := ancestral_genome ''Vertebrates'' n_vertebrates [501, 503],
        6 := extant_genome ''XENTR'' n_xentr [51, 53])"

definition gene_obj :: "string \<Rightarrow> gid \<Rightarrow> agid option \<Rightarrow> abstractgene" where
  "gene_obj i g p = \<lparr>ident = Some i, variant = Gene None, ag_genome = Some g, parent = p\<rparr>"

definition hog_obj :: "string option \<Rightarrow> gid \<Rightarrow> agid option \<Rightarrow> agid list \<Rightarrow> abstractgene" where
  "hog_obj i g p ch = \<lparr>ident = i, variant = HOG {} ch, ag_genome = Some g, parent = p\<rparr>"

text \<open>
  Gene objects: the genes of HUMAN (1, 2, 3), MOUSE (31 to 34) and XENTR (51, 53), and
  the HOGs of Primates (201 to 203), Rodents (301 to 304), Euarchontoglires (401 is
  1.M.E, 402 is 2.E, 403 is 3.E.1, 404 is 3.E.2) and Vertebrates (501 is HOG 1, 503 is
  HOG 3).
\<close>

definition fixture_genes :: "agid \<Rightarrow> abstractgene" where
  "fixture_genes =
     (\<lambda>a. \<lparr>ident = None, variant = HOG {} [], ag_genome = None, parent = None\<rparr>)
       (1 := gene_obj ''1'' 0 (Some 201),
        2 := gene_obj ''2'' 0 (Some 202),
        3 := gene_obj ''3'' 0 (Some 203),
        31 := gene_obj ''31'' 1 (Some 301),
        32 := gene_obj ''32'' 1 (Some 302),
        33 := gene_obj ''33'' 1 (Some 303),
        34 := gene_obj ''34'' 1 (Some 304),
        51 := gene_obj ''51'' 6 (Some 501),
        53 := gene_obj ''53'' 6 (Some 503),
        201 := hog_obj None 2 (Some 401) [1],
        202 := hog_obj None 2 (Some 402) [2],
        203 := hog_obj None 2 (Some 403) [3],
        301 := hog_obj None 3 (Some 401) [31],
        302 := hog_obj None 3 (Some 402) [32],
        303 := hog_obj None 3 (Some 403) [33],
        304 := hog_obj None 3 (Some 404) [34],
        401 := hog_obj (Some ''1.M.E'') 4 (Some 501) [201, 301],
        402 := hog_obj (Some ''2.E'') 4 None [202, 302],
        403 := hog_obj (Some ''3.E.1'') 4 (Some 503) [203, 303],
        404 := hog_obj (Some ''3.E.2'') 4 (Some 503) [304],
        501 := hog_obj (Some ''1'') 5 None [401, 51],
        503 := hog_obj (Some ''3'') 5 None [403, 404, 53])"

definition fixture_taxonomy :: taxonomy where
  "fixture_taxonomy =
     \<lparr>tree_format = ''newick_string'', use_internal_name = True,
      phyloxml_species_name_tag = None, tree = add_depth fixture_tree 0,
      internal_nodes = {n_primates, n_rodents, n_euarchontoglires, n_vertebrates},
      leaves = {n_human, n_mouse, n_xentr}\<rparr>"

definition fixture :: ham where
  "fixture =
     \<lparr>taxonomy = fixture_taxonomy,
      node_genome =
        [n_human \<mapsto> Of 0, n_mouse \<mapsto> Of 1, n_primates \<mapsto> Of 2, n_rodents \<mapsto> Of 3,
         n_euarchontoglires \<mapsto> Of 4, n_vertebrates \<mapsto> Of 5, n_xentr \<mapsto> Of 6],
      genome_objs = fixture_genomes,
      gene_objs = fixture_genes\<rparr>"

text \<open>
  The maps of HUMAN against Euarchontoglires and against Vertebrates, and a vertical and
  a lateral comparison with no map yet.
\<close>

definition map_human_euarchontoglires :: hogsmap where
  "map_human_euarchontoglires = build_maps fixture 4 n_euarchontoglires 0 n_human"

definition map_human_vertebrates :: hogsmap where
  "map_human_vertebrates = build_maps fixture 5 n_vertebrates 0 n_human"

definition new_vertical :: map_vertical where
  "new_vertical =
     \<lparr>mv_HAM = Some fixture, mv_hogmap = None, mv_ancestor = None, mv_descendant = None\<rparr>"

definition new_lateral :: map_lateral where
  "new_lateral =
     \<lparr>ml_HAM = Some fixture, ml_maps = [], ml_ancestor = None, ml_descendants = []\<rparr>"

text \<open>The map of MOUSE against Vertebrates.\<close>

definition map_mouse_vertebrates :: hogsmap where
  "map_mouse_vertebrates = build_maps fixture 5 n_vertebrates 1 n_mouse"


section \<open>Properties of the ancestor walk\<close>

lemma iter_ancestors_strict_suffix:
  "t \<in> set (iter_ancestors n) \<longleftrightarrow> strict_suffix t n"
proof (induction n)
  case Nil
  show ?case by simp
next
  case (Cons i p)
  have "suffix t p \<Longrightarrow> t \<noteq> i # p"
    by (auto dest: suffix_length_le)
  then show ?case
    using Cons.IH by (auto simp: strict_suffix_def suffix_Cons)
qed

lemma is_ancestor_strict_suffix: "is_ancestor a n \<longleftrightarrow> strict_suffix a n"
  by (simp add: is_ancestor_def iter_ancestors_strict_suffix)

lemma is_ancestor_irrefl: "\<not> is_ancestor n n"
  by (simp add: is_ancestor_strict_suffix)

lemma is_ancestor_trans: "is_ancestor a b \<Longrightarrow> is_ancestor b c \<Longrightarrow> is_ancestor a c"
  unfolding is_ancestor_strict_suffix by (rule suffix_order.less_trans)

lemma is_ancestor_asym: "is_ancestor a b \<Longrightarrow> \<not> is_ancestor b a"
  using is_ancestor_trans is_ancestor_irrefl by blast

lemma get_path_up_loop_takeWhile:
  "get_path_up_loop xs a acc = acc @ takeWhile (\<lambda>t. t \<noteq> a) xs"
  by (induction xs arbitrary: acc) auto

lemma get_path_up_takeWhile:
  "get_path_up n a = takeWhile (\<lambda>t. t \<noteq> a) (iter_ancestors n)"
  by (simp add: get_path_up_def get_path_up_loop_takeWhile)

lemma iter_ancestors_sorted:
  "sorted_wrt (\<lambda>x y. is_ancestor y x) (iter_ancestors n)"
proof (induction n)
  case Nil
  show ?case by simp
next
  case (Cons i p)
  show ?case using Cons.IH by (simp add: is_ancestor_def)
qed

lemma sorted_wrt_takeWhile: "sorted_wrt R xs \<Longrightarrow> sorted_wrt R (takeWhile P xs)"
  by (induction xs) (auto dest: set_takeWhileD)

lemma path_between:
  "is_ancestor a n \<Longrightarrow>
   set (takeWhile (\<lambda>t. t \<noteq> a) (iter_ancestors n)) = {t. is_ancestor t n \<and> is_ancestor a t}"
proof (induction n)
  case Nil
  then show ?case by (simp add: is_ancestor_def)
next
  case (Cons i p)
  show ?case
  proof (cases "a = p")
    case True
    have "\<And>t. is_ancestor t (i # p) \<Longrightarrow> \<not> is_ancestor p t"
      using is_ancestor_asym is_ancestor_irrefl by (auto simp: is_ancestor_def)
    then show ?thesis using True by auto
  next
    case False
    with Cons.prems have anc: "is_ancestor a p" by (simp add: is_ancestor_def)
    from Cons.IH [OF anc] False anc show ?thesis
      by (auto simp: is_ancestor_def)
  qed
qed

lemma iter_ancestors_last_root:
  "iter_ancestors n \<noteq> [] \<Longrightarrow> up (last (iter_ancestors n)) = None"
proof (induction n)
  case Nil
  then show ?case by simp
next
  case (Cons i p)
  then show ?case by (cases p) auto
qed

lemma takeWhile_all: "a \<notin> set xs \<Longrightarrow> takeWhile (\<lambda>t. t \<noteq> a) xs = xs"
  by (induction xs) auto

lemma sorted_wrt_irrefl_distinct:
  "sorted_wrt R xs \<Longrightarrow> (\<And>x. \<not> R x x) \<Longrightarrow> distinct xs"
  by (induction xs) auto

text \<open>
  C3: when \<open>a\<close> is a strict ancestor of \<open>n\<close>, \<open>get_path_up n a\<close> holds exactly the nodes
  strictly between the two (the strict ancestors of \<open>n\<close> that have \<open>a\<close> as a strict
  ancestor), each once, ordered from the youngest to the oldest (every later element
  is a strict ancestor of every earlier one), and holds neither \<open>n\<close> nor \<open>a\<close>.
\<close>

theorem get_path_up_between:
  "is_ancestor a n \<Longrightarrow>
     set (get_path_up n a) = {t. is_ancestor t n \<and> is_ancestor a t} \<and>
     sorted_wrt (\<lambda>x y. is_ancestor y x) (get_path_up n a) \<and>
     distinct (get_path_up n a) \<and>
     n \<notin> set (get_path_up n a) \<and> a \<notin> set (get_path_up n a)"
proof -
  assume anc: "is_ancestor a n"
  have s: "set (get_path_up n a) = {t. is_ancestor t n \<and> is_ancestor a t}"
    using path_between [OF anc] by (simp add: get_path_up_takeWhile)
  have o: "sorted_wrt (\<lambda>x y. is_ancestor y x) (get_path_up n a)"
    unfolding get_path_up_takeWhile
    by (rule sorted_wrt_takeWhile) (rule iter_ancestors_sorted)
  have d: "distinct (get_path_up n a)"
    using o by (rule sorted_wrt_irrefl_distinct) (rule is_ancestor_irrefl)
  have "n \<notin> set (get_path_up n a)" "a \<notin> set (get_path_up n a)"
    unfolding s using is_ancestor_irrefl by auto
  with s o d show ?thesis by simp
qed

theorem get_path_up_between_witness:
  "is_ancestor [2] [0, 0, 1, 2] \<and>
   get_path_up [0, 0, 1, 2] [2] = [[0, 1, 2], [1, 2]] \<and>
   set (get_path_up [0, 0, 1, 2] [2]) =
     {t. is_ancestor t [0, 0, 1, 2] \<and> is_ancestor [2] t} \<and>
   [0, 0, 1, 2] \<notin> set (get_path_up [0, 0, 1, 2] [2]) \<and>
   [2] \<notin> set (get_path_up [0, 0, 1, 2] [2])"
proof -
  have h: "is_ancestor [2] [0, 0, 1, 2]" by (simp add: is_ancestor_def)
  have v: "get_path_up [0, 0, 1, 2] [2] = [[0, 1, 2], [1, 2]]"
    by (simp add: get_path_up_def)
  from get_path_up_between [OF h] h v show ?thesis
    by (simp add: is_ancestor_irrefl)
qed

text \<open>
  C10: when \<open>a\<close> is not a strict ancestor of \<open>n\<close>, \<open>get_path_up n a\<close> is a plain list
  (the function has no failing branch): the whole walk from \<open>n\<close> upwards, that is every
  strict ancestor of \<open>n\<close>, youngest first, ending with the root of the tree (the node
  whose \<open>up\<close> is \<open>None\<close>) when \<open>n\<close> has an ancestor at all.
\<close>

theorem get_path_up_not_ancestor:
  "\<not> is_ancestor a n \<Longrightarrow>
     get_path_up n a = iter_ancestors n \<and>
     set (get_path_up n a) = {t. is_ancestor t n} \<and>
     sorted_wrt (\<lambda>x y. is_ancestor y x) (get_path_up n a) \<and>
     (iter_ancestors n \<noteq> [] \<longrightarrow> up (last (get_path_up n a)) = None)"
proof -
  assume "\<not> is_ancestor a n"
  then have e: "get_path_up n a = iter_ancestors n"
    by (simp add: get_path_up_takeWhile is_ancestor_def takeWhile_all)
  show ?thesis
    unfolding e
    using iter_ancestors_sorted [of n] iter_ancestors_last_root [of n]
    by (auto simp: is_ancestor_def)
qed

theorem get_path_up_not_ancestor_witness:
  "\<not> is_ancestor [1, 2] [0, 0, 2] \<and>
   get_path_up [0, 0, 2] [1, 2] = [[0, 2], [2], []] \<and>
   up (last (get_path_up [0, 0, 2] [1, 2])) = None"
proof -
  have h: "\<not> is_ancestor [1, 2] [0, 0, 2]" by (simp add: is_ancestor_def)
  from get_path_up_not_ancestor [OF h] h show ?thesis by simp
qed


section \<open>Genome: taxon and ancestral clustering\<close>

text \<open>
  C6: \<open>set_taxon\<close> raises \<open>TypeError\<close> for an argument that is no tree node; raises
  \<open>EvolutionaryConceptError\<close> when a different taxon is already set; and with the taxon
  already set it returns normally and leaves the genome as it was. In the two failing
  cases the genome is unchanged too.
\<close>

theorem set_taxon_contract:
  "set_taxon self (Other ty) = (Inl TypeError, self) \<and>
   (taxon self = Some t' \<and> t \<noteq> t' \<longrightarrow>
      set_taxon self (Of t) = (Inl EvolutionaryConceptError, self)) \<and>
   (taxon self = Some t \<longrightarrow> set_taxon self (Of t) = (Inr (), self))"
  by (auto simp: set_taxon_def)

theorem set_taxon_contract_witness:
  "taxon \<lparr>cls = ExtantGenome, genes = [], taxon = Some [0], genome_name = Some ''HUMAN'',
          ancestral_clustering = None\<rparr> = Some [0] \<and> [1] \<noteq> [0::nat] \<and>
   set_taxon \<lparr>cls = ExtantGenome, genes = [], taxon = Some [0], genome_name = Some ''HUMAN'',
          ancestral_clustering = None\<rparr> (Other ''str'') =
     (Inl TypeError, \<lparr>cls = ExtantGenome, genes = [], taxon = Some [0],
          genome_name = Some ''HUMAN'', ancestral_clustering = None\<rparr>) \<and>
   set_taxon \<lparr>cls = ExtantGenome, genes = [], taxon = Some [0], genome_name = Some ''HUMAN'',
          ancestral_clustering = None\<rparr> (Of [1]) =
     (Inl EvolutionaryConceptError, \<lparr>cls = ExtantGenome, genes = [], taxon = Some [0],
          genome_name = Some ''HUMAN'', ancestral_clustering = None\<rparr>) \<and>
   set_taxon \<lparr>cls = ExtantGenome, genes = [], taxon = Some [0], genome_name = Some ''HUMAN'',
          ancestral_clustering = None\<rparr> (Of [0]) =
     (Inr (), \<lparr>cls = ExtantGenome, genes = [], taxon = Some [0],
          genome_name = Some ''HUMAN'', ancestral_clustering = None\<rparr>)"
  using set_taxon_contract
    [of "\<lparr>cls = ExtantGenome, genes = [], taxon = Some [0], genome_name = Some ''HUMAN'',
          ancestral_clustering = None\<rparr>" "''str''" "[0]" "[1]"]
    set_taxon_contract
    [of "\<lparr>cls = ExtantGenome, genes = [], taxon = Some [0], genome_name = Some ''HUMAN'',
          ancestral_clustering = None\<rparr>" "''str''" "[0]" "[0]"]
  by simp

lemma clustering_loop_eq:
  "clustering_loop f xs m = (\<lambda>k. if k \<in> set xs then Some (f k) else m k)"
proof (induction xs arbitrary: m)
  case Nil
  show ?case by simp
next
  case (Cons x xs)
  show ?case by (auto simp: Cons.IH)
qed

text \<open>
  C7: on a genome whose cache is still \<open>None\<close>, \<open>get_ancestral_clustering\<close> returns the
  dictionary whose keys are exactly the genes of the genome, each with the value
  \<open>get_all_descendant_genes\<close> gives for it, and stores it; every later call returns that
  stored dictionary and leaves the genome as it is, whatever \<open>get_all_descendant_genes\<close>
  would compute then (so nothing is recomputed).
\<close>

theorem get_ancestral_clustering_cached:
  "ancestral_clustering self = None \<Longrightarrow>
   get_ancestral_clustering f self = (m, self1) \<Longrightarrow>
     dom m = set (genes self) \<and>
     (\<forall>hog \<in> set (genes self). m hog = Some (f hog)) \<and>
     ancestral_clustering self1 = Some m \<and>
     (\<forall>f'. get_ancestral_clustering f' self1 = (m, self1))"
  by (auto simp: get_ancestral_clustering_def clustering_loop_eq Let_def dom_def
           split: if_splits)

theorem get_ancestral_clustering_cached_witness:
  "ancestral_clustering \<lparr>cls = AncestralGenome, genes = [1, 2], taxon = Some [],
       genome_name = None, ancestral_clustering = None\<rparr> = None \<and>
   fst (get_ancestral_clustering (\<lambda>hog. [hog + 10])
       \<lparr>cls = AncestralGenome, genes = [1, 2], taxon = Some [],
        genome_name = None, ancestral_clustering = None\<rparr>) 1 = Some [11] \<and>
   fst (get_ancestral_clustering (\<lambda>hog. [hog + 10])
       \<lparr>cls = AncestralGenome, genes = [1, 2], taxon = Some [],
        genome_name = None, ancestral_clustering = None\<rparr>) 2 = Some [12] \<and>
   dom (fst (get_ancestral_clustering (\<lambda>hog. [hog + 10])
       \<lparr>cls = AncestralGenome, genes = [1, 2], taxon = Some [],
        genome_name = None, ancestral_clustering = None\<rparr>)) = {1, 2} \<and>
   get_ancestral_clustering (\<lambda>hog. [])
       (snd (get_ancestral_clustering (\<lambda>hog. [hog + 10])
          \<lparr>cls = AncestralGenome, genes = [1, 2], taxon = Some [],
           genome_name = None, ancestral_clustering = None\<rparr>)) =
     get_ancestral_clustering (\<lambda>hog. [hog + 10])
       \<lparr>cls = AncestralGenome, genes = [1, 2], taxon = Some [],
        genome_name = None, ancestral_clustering = None\<rparr>"
proof -
  let ?g = "\<lparr>cls = AncestralGenome, genes = [1, 2], taxon = Some [],
       genome_name = None, ancestral_clustering = None\<rparr>"
  let ?r = "get_ancestral_clustering (\<lambda>hog. [hog + 10]) ?g"
  have h: "ancestral_clustering ?g = None" by simp
  have r: "?r = (fst ?r, snd ?r)" by simp
  from get_ancestral_clustering_cached [OF h r] h show ?thesis
    by simp
qed


section \<open>What a failing call leaves behind\<close>

text \<open>
  \<open>set_taxon\<close> and \<open>add_gene\<close> check before they assign: when either raises, the
  receiver and the argument are as before.
\<close>

lemma set_taxon_error_unchanged: "set_taxon self t = (Inl e, self') \<Longrightarrow> self' = self"
  by (auto simp: set_taxon_def split: arg.splits if_splits)

lemma add_gene_error_unchanged: "add_gene h self gene = (Inl e, h') \<Longrightarrow> h' = h"
  by (auto simp: add_gene_def split: arg.splits)

text \<open>
  \<open>add_genome_to_node\<close> stores the feature first: whenever it raises, the node already
  carries the genome it was given.
\<close>

lemma add_genome_to_node_error_feature:
  "add_genome_to_node s node genome = (Inl e, s') \<Longrightarrow> node_genome s' node = Some genome"
  by (auto simp: add_genome_to_node_def Let_def split: arg.splits prod.splits sum.splits
        if_splits)

text \<open>
  C4 at a failing input: the HUMAN genome (genome 0) is attached to the node HUMAN;
  attaching it to the node PANTR raises \<open>EvolutionaryConceptError\<close>, and the node PANTR,
  which had no \<open>genome\<close> feature before the call, has that genome as its feature after
  it: a partial mutation is committed.
\<close>

theorem add_genome_to_node_partial_mutation:
  "fst (add_genome_to_node fixture n_pantr (Of 0)) = Inl EvolutionaryConceptError \<and>
   node_genome fixture n_pantr = None \<and>
   node_genome (snd (add_genome_to_node fixture n_pantr (Of 0))) n_pantr = Some (Of 0) \<and>
   snd (add_genome_to_node fixture n_pantr (Of 0)) \<noteq> fixture"
proof -
  have t: "taxon (fixture_genomes 0) = Some n_human"
    by (simp add: fixture_genomes_def extant_genome_def)
  have g: "genome_objs fixture = fixture_genomes" by (simp add: fixture_def)
  have ne: "n_pantr \<noteq> n_human" by (simp add: n_pantr_def n_human_def)
  have r: "add_genome_to_node fixture n_pantr (Of 0) =
      (Inl EvolutionaryConceptError,
       fixture\<lparr>node_genome := (node_genome fixture)(n_pantr \<mapsto> Of 0)\<rparr>)"
    using t ne by (simp add: add_genome_to_node_def set_taxon_def g Let_def)
  have b: "node_genome fixture n_pantr = None"
    by (simp add: fixture_def n_pantr_def n_human_def n_mouse_def n_primates_def
          n_rodents_def n_euarchontoglires_def n_vertebrates_def n_xentr_def)
  have "node_genome (fixture\<lparr>node_genome := (node_genome fixture)(n_pantr \<mapsto> Of 0)\<rparr>)
      n_pantr \<noteq> node_genome fixture n_pantr"
    using b by simp
  then have "fixture\<lparr>node_genome := (node_genome fixture)(n_pantr \<mapsto> Of 0)\<rparr> \<noteq> fixture"
    by metis
  with r b show ?thesis by simp
qed

text \<open>
  The class check comes last: for a genome that is neither extant nor ancestral
  (genome 7, of the base class, with no taxon) the call raises \<open>TypeError\<close> after the
  node has got its feature and the genome its taxon.
\<close>

lemma add_genome_to_node_late_type_error:
  "fst (add_genome_to_node fixture n_pantr (Of 7)) = Inl TypeError \<and>
   taxon (genome_objs fixture 7) = None \<and>
   taxon (genome_objs (snd (add_genome_to_node fixture n_pantr (Of 7))) 7) = Some n_pantr \<and>
   node_genome (snd (add_genome_to_node fixture n_pantr (Of 7))) n_pantr = Some (Of 7)"
  by (simp add: add_genome_to_node_def set_taxon_def fixture_def fixture_genomes_def
        unattached_genome_def Let_def)


section \<open>Taxonomy construction: the name checks\<close>

lemma iter_leaves_unfold:
  "iter_leaves n = (if is_leaf n then [n] else concat (map iter_leaves (children n)))"
  by (cases n) (simp add: is_leaf_def)

lemma levelorder_leaves:
  "mset (filter is_leaf (levelorder q)) = mset (concat (map iter_leaves q))"
proof (induction q rule: levelorder.induct)
  case 1
  show ?case by simp
next
  case (2 n tovisit)
  show ?case
  proof (cases "is_leaf n")
    case True
    then have "children n = []" by (simp add: is_leaf_def)
    with "2.IH" True show ?thesis
      by (simp add: iter_leaves_unfold [of n])
  next
    case False
    with "2.IH" show ?thesis
      by (simp add: iter_leaves_unfold [of n] mset_concat)
  qed
qed

lemma traverse_leaves: "mset (filter is_leaf (traverse t)) = mset (iter_leaves t)"
  using levelorder_leaves [of "[t]"] by (simp add: traverse_def)

lemma generate_internal_node_name_leaves:
  "iter_leaves (generate_internal_node_name internal t) = iter_leaves t"
proof (induction t)
  case (TreeNode n tx d ch)
  have "map (iter_leaves \<circ> generate_internal_node_name internal) ch = map iter_leaves ch"
    by (rule map_cong) (use TreeNode.IH in auto)
  then have "concat (map (iter_leaves \<circ> generate_internal_node_name internal) ch) =
      concat (map iter_leaves ch)"
    by (rule arg_cong)
  then show ?case by auto
qed

lemma names_loop_newick:
  "format \<noteq> ''phyloxml'' \<Longrightarrow>
   names_loop format tag xs (leaf_names, int_names) =
     Inr (leaf_names @ map name (filter is_leaf xs),
          int_names @ map name (filter (\<lambda>n. \<not> is_leaf n) xs))"
  by (induction xs arbitrary: leaf_names int_names) auto

lemma len_set_distinct: "length xs \<noteq> card (set xs) \<longleftrightarrow> \<not> distinct xs"
  using card_distinct distinct_card by metis

lemma traverse_leaf_names_distinct:
  "distinct (map name (filter is_leaf (traverse t))) \<longleftrightarrow> distinct (map name (iter_leaves t))"
proof -
  have "mset (map name (filter is_leaf (traverse t))) = mset (map name (iter_leaves t))"
    using traverse_leaves [of t] by (metis mset_map)
  then show ?thesis by (rule mset_eq_imp_distinct_iff)
qed

lemma check_consistency_names_newick:
  "format \<noteq> ''phyloxml'' \<Longrightarrow>
   check_consistency_names format tag t =
     (if distinct (map name (iter_leaves t)) then Inr () else Inl KeyError)"
  by (simp add: check_consistency_names_def names_loop_newick len_set_distinct
        traverse_leaf_names_distinct)

lemma leaf_in_traverse:
  "l \<in> set (iter_leaves t) \<Longrightarrow> l \<in> set (traverse t) \<and> is_leaf l"
proof -
  assume "l \<in> set (iter_leaves t)"
  then have "l \<in># mset (iter_leaves t)" by simp
  then have "l \<in># mset (filter is_leaf (traverse t))" by (simp only: traverse_leaves)
  then show ?thesis by simp
qed

lemma get_name_clade_name_error:
  "get_name_phyloxml (Some ''clade_name'') n = Inl e \<Longrightarrow> e = KeyError"
  by (auto simp: get_name_phyloxml_def split: if_splits)

lemma get_name_clade_name_empty:
  "name n = Some '''' \<Longrightarrow> get_name_phyloxml (Some ''clade_name'') n = Inl KeyError"
  by (simp add: get_name_phyloxml_def)

lemma build_tree_loop_clade_name_error:
  "build_tree_loop internal (Some ''clade_name'') xs = Inl e \<Longrightarrow> e = KeyError"
proof (induction xs)
  case Nil
  then show ?case by simp
next
  case (Cons x xs)
  then show ?case
    by (auto split: if_splits sum.splits dest: get_name_clade_name_error)
qed

lemma build_tree_loop_fails:
  "l \<in> set xs \<Longrightarrow> is_leaf l \<Longrightarrow> get_name_phyloxml tag l = Inl e \<Longrightarrow>
   \<exists>e'. build_tree_loop internal tag xs = Inl e'"
proof (induction xs)
  case Nil
  then show ?case by simp
next
  case (Cons x xs)
  show ?case
  proof (cases "l = x")
    case True
    with Cons.prems show ?thesis by simp
  next
    case False
    with Cons.prems Cons.IH obtain e' where "build_tree_loop internal tag xs = Inl e'"
      by auto
    then show ?thesis by (auto split: sum.splits)
  qed
qed

lemma build_tree_clade_name_empty:
  assumes "l \<in> set (iter_leaves t)" and "name l = Some ''''"
  shows "build_tree t ''phyloxml'' internal (Some ''clade_name'') = Inl KeyError"
proof -
  from leaf_in_traverse [OF assms(1)] have m: "l \<in> set (traverse t)" and lf: "is_leaf l"
    by simp_all
  from build_tree_loop_fails [OF m lf get_name_clade_name_empty [OF assms(2)]]
  obtain e' where "build_tree_loop internal (Some ''clade_name'') (traverse t) = Inl e'"
    by blast
  moreover from this have "e' = KeyError" by (rule build_tree_loop_clade_name_error)
  ultimately show ?thesis by (simp add: build_tree_def)
qed

text \<open>
  C9, as amended. For a tree given as \<open>newick\<close> or \<open>newick_string\<close>, construction raises
  \<open>KeyError\<close> exactly when two leaves of the tree share a name, and succeeds otherwise:
  the names of the internal nodes play no part, so duplicates among them are never
  rejected. For a \<open>phyloxml\<close> tree read with the tag \<open>clade_name\<close>, construction raises
  \<open>KeyError\<close> as well when some leaf has the empty string as its name.
\<close>

theorem Taxonomy_init_KeyError:
  "(format = ''newick'' \<or> format = ''newick_string'' \<longrightarrow>
      (Taxonomy_init t format internal tag = Inl KeyError \<longleftrightarrow>
         \<not> distinct (map name (iter_leaves t))) \<and>
      (distinct (map name (iter_leaves t)) \<longrightarrow>
         (\<exists>tx. Taxonomy_init t format internal tag = Inr tx))) \<and>
   ((\<exists>l \<in> set (iter_leaves t). name l = Some '''') \<longrightarrow>
      Taxonomy_init t ''phyloxml'' internal (Some ''clade_name'') = Inl KeyError)"
proof (intro conjI impI)
  assume f: "format = ''newick'' \<or> format = ''newick_string''"
  then have np: "format \<noteq> ''phyloxml''" by auto
  from f have b: "build_tree t format internal tag = Inr (Some t)"
    by (auto simp: build_tree_def)
  show "Taxonomy_init t format internal tag = Inl KeyError \<longleftrightarrow>
      \<not> distinct (map name (iter_leaves t))"
    by (simp add: Taxonomy_init_def b check_consistency_names_newick [OF np]
          generate_internal_node_name_leaves)
  show "\<exists>tx. Taxonomy_init t format internal tag = Inr tx"
    if "distinct (map name (iter_leaves t))"
    using that
    by (simp add: Taxonomy_init_def b check_consistency_names_newick [OF np]
          generate_internal_node_name_leaves)
next
  assume "\<exists>l \<in> set (iter_leaves t). name l = Some ''''"
  then have "build_tree t ''phyloxml'' internal (Some ''clade_name'') = Inl KeyError"
    using build_tree_clade_name_empty by blast
  then show "Taxonomy_init t ''phyloxml'' internal (Some ''clade_name'') = Inl KeyError"
    by (simp add: Taxonomy_init_def)
qed

theorem Taxonomy_init_KeyError_witness:
  "distinct (map name (iter_leaves
      (inner_node ''X'' [inner_node ''X'' [leaf_node ''A'', leaf_node ''B''], leaf_node ''C'']))) \<and>
   (\<exists>tx. Taxonomy_init
      (inner_node ''X'' [inner_node ''X'' [leaf_node ''A'', leaf_node ''B''], leaf_node ''C''])
      ''newick'' True None = Inr tx) \<and>
   \<not> distinct (map name (iter_leaves
      (inner_node ''X'' [inner_node ''Y'' [leaf_node ''A'', leaf_node ''B''], leaf_node ''A'']))) \<and>
   Taxonomy_init
      (inner_node ''X'' [inner_node ''Y'' [leaf_node ''A'', leaf_node ''B''], leaf_node ''A''])
      ''newick'' True None = Inl KeyError \<and>
   name (leaf_node '''') = Some '''' \<and>
   leaf_node '''' \<in> set (iter_leaves (inner_node ''R'' [leaf_node ''A'', leaf_node ''''])) \<and>
   Taxonomy_init (inner_node ''R'' [leaf_node ''A'', leaf_node ''''])
      ''phyloxml'' False (Some ''clade_name'') = Inl KeyError"
proof -
  let ?t1 = "inner_node ''X'' [inner_node ''X'' [leaf_node ''A'', leaf_node ''B''], leaf_node ''C'']"
  let ?t2 = "inner_node ''X'' [inner_node ''Y'' [leaf_node ''A'', leaf_node ''B''], leaf_node ''A'']"
  let ?t3 = "inner_node ''R'' [leaf_node ''A'', leaf_node '''']"
  have d1: "distinct (map name (iter_leaves ?t1))"
    by (simp add: inner_node_def leaf_node_def)
  have d2: "\<not> distinct (map name (iter_leaves ?t2))"
    by (simp add: inner_node_def leaf_node_def)
  have l3: "name (leaf_node '''') = Some ''''"
    by (simp add: leaf_node_def)
  have m3: "leaf_node '''' \<in> set (iter_leaves ?t3)"
    by (simp add: inner_node_def leaf_node_def)
  from m3 l3 have e3: "\<exists>l \<in> set (iter_leaves ?t3). name l = Some ''''" by blast
  from Taxonomy_init_KeyError [of "''newick''" ?t1 True None] d1
  have r1: "\<exists>tx. Taxonomy_init ?t1 ''newick'' True None = Inr tx" by simp
  from Taxonomy_init_KeyError [of "''newick''" ?t2 True None] d2
  have r2: "Taxonomy_init ?t2 ''newick'' True None = Inl KeyError" by simp
  from Taxonomy_init_KeyError [of "''newick''" ?t3 False None] e3
  have r3: "Taxonomy_init ?t3 ''phyloxml'' False (Some ''clade_name'') = Inl KeyError"
    by blast
  from d1 r1 d2 r2 l3 m3 r3 show ?thesis by blast
qed

text \<open>
  The claim as stated fails on a phyloxml tree: with the tag \<open>clade_name\<close>, a leaf
  whose name is the empty string makes construction raise \<open>KeyError\<close> although the names
  of the leaves are pairwise different.
\<close>

theorem Taxonomy_init_KeyError_counterexample:
  "Taxonomy_init (inner_node ''R'' [leaf_node ''A'', leaf_node ''''])
      ''phyloxml'' False (Some ''clade_name'') = Inl KeyError \<and>
   distinct (map name (iter_leaves (inner_node ''R'' [leaf_node ''A'', leaf_node ''''])))"
  by (simp add: Taxonomy_init_def build_tree_def traverse_def is_leaf_def inner_node_def
        leaf_node_def get_name_phyloxml_def)

text \<open>
  Other outcomes of the name lookup on a phyloxml tree: a leaf with an empty name and an
  empty taxonomy list raises \<open>IndexError\<close> when no tag is given, and a leaf whose code is
  \<open>None\<close> is accepted with the tag \<open>taxonomy_code\<close> (its name becomes \<open>None\<close>).
\<close>

lemma phyloxml_empty_taxonomy_IndexError:
  "Taxonomy_init (TreeNode (Some '''') [] None []) ''phyloxml'' False None = Inl IndexError"
  by (simp add: Taxonomy_init_def build_tree_def traverse_def is_leaf_def
        get_name_phyloxml_def taxonomy_0_def)

lemma phyloxml_None_code_accepted:
  "\<exists>tx. Taxonomy_init
      (TreeNode (Some ''A'') [\<lparr>scientific_name = None, code = None\<rparr>] None [])
      ''phyloxml'' False (Some ''taxonomy_code'') = Inr tx"
  by (simp add: Taxonomy_init_def build_tree_def traverse_def is_leaf_def
        get_name_phyloxml_def taxonomy_0_def check_consistency_names_def)


section \<open>Taxon ranges of genes and HOGs\<close>

text \<open>
  C5, as amended. On a \<open>Gene\<close> with a taxon range set, \<open>set_taxon_range\<close> with a
  different value raises \<open>EvolutionaryConceptError\<close> and leaves the gene as it was, and
  with the same value it returns normally and changes nothing. On a \<open>HOG\<close> every value
  is accepted and added to the set of tags, and a tag already present changes nothing.
\<close>

theorem set_taxon_range_contract:
  "(variant g = Gene (Some v) \<and> w \<noteq> v \<longrightarrow>
      set_taxon_range g w = (Inl EvolutionaryConceptError, g)) \<and>
   (variant g = Gene (Some v) \<longrightarrow> set_taxon_range g v = (Inr (), g)) \<and>
   (variant g = HOG ts ch \<longrightarrow>
      set_taxon_range g w = (Inr (), g\<lparr>variant := HOG (insert w ts) ch\<rparr>)) \<and>
   (variant g = HOG ts ch \<and> w \<in> ts \<longrightarrow> set_taxon_range g w = (Inr (), g))"
  by (auto simp: set_taxon_range_def insert_absorb)

theorem set_taxon_range_contract_witness:
  "variant (gene_obj ''423'' 0 None\<lparr>variant := Gene (Some ''test'')\<rparr>) = Gene (Some ''test'') \<and>
   ''bla'' \<noteq> ''test'' \<and>
   set_taxon_range (gene_obj ''423'' 0 None\<lparr>variant := Gene (Some ''test'')\<rparr>) ''bla'' =
     (Inl EvolutionaryConceptError, gene_obj ''423'' 0 None\<lparr>variant := Gene (Some ''test'')\<rparr>) \<and>
   set_taxon_range (gene_obj ''423'' 0 None\<lparr>variant := Gene (Some ''test'')\<rparr>) ''test'' =
     (Inr (), gene_obj ''423'' 0 None\<lparr>variant := Gene (Some ''test'')\<rparr>) \<and>
   variant (hog_obj None 2 None []\<lparr>variant := HOG {''Primates''} []\<rparr>) = HOG {''Primates''} [] \<and>
   ''Primates'' \<in> {''Primates''} \<and>
   set_taxon_range (hog_obj None 2 None []\<lparr>variant := HOG {''Primates''} []\<rparr>) ''Primates'' =
     (Inr (), hog_obj None 2 None []\<lparr>variant := HOG {''Primates''} []\<rparr>) \<and>
   set_taxon_range (hog_obj None 2 None []\<lparr>variant := HOG {''Primates''} []\<rparr>) ''Mammalia'' =
     (Inr (), hog_obj None 2 None []\<lparr>variant := HOG {''Mammalia'', ''Primates''} []\<rparr>)"
proof -
  let ?g = "gene_obj ''423'' 0 None\<lparr>variant := Gene (Some ''test'')\<rparr>"
  let ?h = "hog_obj None 2 None []\<lparr>variant := HOG {''Primates''} []\<rparr>"
  have vg: "variant ?g = Gene (Some ''test'')" by (simp add: gene_obj_def)
  have vh: "variant ?h = HOG {''Primates''} []" by (simp add: hog_obj_def)
  have ne: "''bla'' \<noteq> ''test''" by simp
  from set_taxon_range_contract [of ?g "''test''" "''bla''" "{''Primates''}" "[]"] vg ne
  have a: "set_taxon_range ?g ''bla'' = (Inl EvolutionaryConceptError, ?g)"
    and b: "set_taxon_range ?g ''test'' = (Inr (), ?g)"
    by blast+
  from set_taxon_range_contract [of ?h "''x''" "''Primates''" "{''Primates''}" "[]"] vh
  have c: "set_taxon_range ?h ''Primates'' = (Inr (), ?h)"
    by blast
  from set_taxon_range_contract [of ?h "''x''" "''Mammalia''" "{''Primates''}" "[]"] vh
  have d: "set_taxon_range ?h ''Mammalia'' =
      (Inr (), ?h\<lparr>variant := HOG (insert ''Mammalia'' {''Primates''}) []\<rparr>)"
    by blast
  from vg ne a b vh c d show ?thesis by (simp add: hog_obj_def)
qed

text \<open>
  The claim as stated fails on a \<open>HOG\<close>: with the tag \<open>Primates\<close> present, setting the
  different value \<open>Mammalia\<close> raises nothing (test_several_taxon_ranges_possible).
\<close>

theorem set_taxon_range_counterexample:
  "variant (hog_obj None 2 None []\<lparr>variant := HOG {''Primates''} []\<rparr>) = HOG {''Primates''} [] \<and>
   ''Mammalia'' \<noteq> ''Primates'' \<and>
   fst (set_taxon_range (hog_obj None 2 None []\<lparr>variant := HOG {''Primates''} []\<rparr>) ''Mammalia'')
     = Inr ()"
  by (simp add: set_taxon_range_def hog_obj_def)

section \<open>Adding maps to a vertical or lateral comparison\<close>

text \<open>
  C8: once a map has been added to a \<open>MapVertical\<close>, adding anything more raises
  \<open>TypeError\<close>; a \<open>MapLateral\<close> records the ancestor of a map it accepts, and adding a map
  with an ancestor different from the recorded one raises \<open>TypeError\<close>. The receiver is
  unchanged in both cases.
\<close>

theorem add_map_rejects:
  "(MapVertical_add_map v (Of m1) = (Inr (), v1) \<longrightarrow>
      MapVertical_add_map v1 x = (Inl TypeError, v1)) \<and>
   (MapLateral_add_map l (Of m1) = (Inr (), l1) \<longrightarrow> ml_ancestor l1 = Some (ancestor m1)) \<and>
   (ml_ancestor l = Some a \<and> ancestor m2 \<noteq> a \<longrightarrow>
      MapLateral_add_map l (Of m2) = (Inl TypeError, l))"
  by (auto simp: MapVertical_add_map_def MapLateral_add_map_def split: arg.splits if_splits)

lemma build_maps_ancestor: "ancestor (build_maps h anc tanc desc tdesc) = anc"
  by (simp add: build_maps_def Let_def)

lemma build_maps_descendant: "descendant (build_maps h anc tanc desc tdesc) = desc"
  by (simp add: build_maps_def Let_def)

theorem add_map_rejects_witness:
  "fst (MapVertical_add_map new_vertical (Of map_human_euarchontoglires)) = Inr () \<and>
   MapVertical_add_map
       (snd (MapVertical_add_map new_vertical (Of map_human_euarchontoglires)))
       (Of map_human_vertebrates) =
     (Inl TypeError, snd (MapVertical_add_map new_vertical (Of map_human_euarchontoglires))) \<and>
   fst (MapLateral_add_map new_lateral (Of map_human_euarchontoglires)) = Inr () \<and>
   ml_ancestor (snd (MapLateral_add_map new_lateral (Of map_human_euarchontoglires))) = Some 4 \<and>
   ancestor map_human_vertebrates \<noteq> 4 \<and>
   MapLateral_add_map
       (snd (MapLateral_add_map new_lateral (Of map_human_euarchontoglires)))
       (Of map_human_vertebrates) =
     (Inl TypeError, snd (MapLateral_add_map new_lateral (Of map_human_euarchontoglires)))"
proof -
  let ?v1 = "snd (MapVertical_add_map new_vertical (Of map_human_euarchontoglires))"
  let ?l1 = "snd (MapLateral_add_map new_lateral (Of map_human_euarchontoglires))"
  have fv: "fst (MapVertical_add_map new_vertical (Of map_human_euarchontoglires)) = Inr ()"
    by (simp add: MapVertical_add_map_def new_vertical_def)
  have fl: "fst (MapLateral_add_map new_lateral (Of map_human_euarchontoglires)) = Inr ()"
    by (simp add: MapLateral_add_map_def new_lateral_def)
  from fv
  have v: "MapVertical_add_map new_vertical (Of map_human_euarchontoglires) = (Inr (), ?v1)"
    by (metis prod.collapse)
  from fl
  have l: "MapLateral_add_map new_lateral (Of map_human_euarchontoglires) = (Inr (), ?l1)"
    by (metis prod.collapse)
  have a: "ancestor map_human_euarchontoglires = 4"
    by (simp add: map_human_euarchontoglires_def build_maps_ancestor)
  have b: "ancestor map_human_vertebrates \<noteq> 4"
    by (simp add: map_human_vertebrates_def build_maps_ancestor)
  from add_map_rejects
    [of new_vertical map_human_euarchontoglires ?v1 "Of map_human_vertebrates"
        new_lateral ?l1 4 map_human_vertebrates] v l a
  have r1: "MapVertical_add_map ?v1 (Of map_human_vertebrates) = (Inl TypeError, ?v1)"
    and r2: "ml_ancestor ?l1 = Some 4"
    by simp_all
  from add_map_rejects
    [of new_vertical map_human_euarchontoglires ?v1 "Of map_human_vertebrates"
        ?l1 ?l1 4 map_human_vertebrates] r2 b
  have r3: "MapLateral_add_map ?l1 (Of map_human_vertebrates) = (Inl TypeError, ?l1)"
    by simp
  from fv fl r1 r2 b r3 show ?thesis by blast
qed


section \<open>The pairwise map: validation and classification\<close>

lemma remdups_pair: "remdups gs = [a, b] \<Longrightarrow> set gs = {a, b} \<and> a \<noteq> b"
proof -
  assume r: "remdups gs = [a, b]"
  have "set (remdups gs) = set gs" by simp
  moreover have "distinct (remdups gs)" by simp
  ultimately show ?thesis unfolding r by auto
qed

lemma HOGsMap_init_error: "HOGsMap_init h gs = Inl e \<Longrightarrow> e = TypeError"
  by (auto simp: HOGsMap_init_def split: list.splits option.splits if_splits)

lemma HOGsMap_init_accepts:
  "HOGsMap_init h gs = Inr m \<Longrightarrow>
   \<exists>g1 g2 t1 t2. set gs = {g1, g2} \<and> g1 \<noteq> g2 \<and>
      taxon (genome_objs h g1) = Some t1 \<and> taxon (genome_objs h g2) = Some t2 \<and>
      is_ancestor t1 t2 \<and> ancestor m = g1 \<and> descendant m = g2 \<and>
      m = build_maps h g1 t1 g2 t2"
proof -
  assume a: "HOGsMap_init h gs = Inr m"
  then obtain a b where r: "remdups gs = [a, b]"
    by (auto simp: HOGsMap_init_def split: list.splits)
  from remdups_pair [OF r] have s: "set gs = {a, b}" "a \<noteq> b" by auto
  from a r obtain ta tb where t: "taxon (genome_objs h a) = Some ta"
      "taxon (genome_objs h b) = Some tb"
    by (auto simp: HOGsMap_init_def split: option.splits)
  from a r t have "(is_ancestor ta tb \<and> m = build_maps h a ta b tb) \<or>
      (is_ancestor tb ta \<and> m = build_maps h b tb a ta)"
    by (auto simp: HOGsMap_init_def split: if_splits)
  then show ?thesis
  proof
    assume c: "is_ancestor ta tb \<and> m = build_maps h a ta b tb"
    with s t have "set gs = {a, b} \<and> a \<noteq> b \<and>
        taxon (genome_objs h a) = Some ta \<and> taxon (genome_objs h b) = Some tb \<and>
        is_ancestor ta tb \<and> ancestor m = a \<and> descendant m = b \<and>
        m = build_maps h a ta b tb"
      by (simp add: build_maps_ancestor build_maps_descendant)
    then show ?thesis by blast
  next
    assume c: "is_ancestor tb ta \<and> m = build_maps h b tb a ta"
    from s have s': "set gs = {b, a}" "b \<noteq> a" by auto
    from c s' t have "set gs = {b, a} \<and> b \<noteq> a \<and>
        taxon (genome_objs h b) = Some tb \<and> taxon (genome_objs h a) = Some ta \<and>
        is_ancestor tb ta \<and> ancestor m = b \<and> descendant m = a \<and>
        m = build_maps h b tb a ta"
      by (simp add: build_maps_ancestor build_maps_descendant)
    then show ?thesis by blast
  qed
qed

lemma siblings_unrelated: "\<not> is_ancestor (i # p) (j # p)"
  by (auto simp: is_ancestor_strict_suffix strict_suffix_def suffix_Cons dest: suffix_length_le)

lemma HOGsMap_init_siblings:
  "taxon (genome_objs h g1) = Some (i # p) \<Longrightarrow> taxon (genome_objs h g2) = Some (j # p) \<Longrightarrow>
   HOGsMap_init h [g1, g2] = Inl TypeError"
  by (cases "g1 = g2") (auto simp: HOGsMap_init_def siblings_unrelated)

text \<open>
  C2: the constructor of \<open>HOGsMap\<close> succeeds only on a set of two different genomes
  whose taxa are related by strict ancestry, the older one becoming \<open>ancestor\<close>; on
  every other set it raises \<open>TypeError\<close>, in particular on a single genome, on a genome
  paired with itself, and on two genomes attached to children of one node.
\<close>

theorem HOGsMap_init_lineage:
  "(HOGsMap_init h gs = Inr m \<longrightarrow>
      (\<exists>g1 g2 t1 t2. set gs = {g1, g2} \<and> g1 \<noteq> g2 \<and>
         taxon (genome_objs h g1) = Some t1 \<and> taxon (genome_objs h g2) = Some t2 \<and>
         is_ancestor t1 t2 \<and> ancestor m = g1 \<and> descendant m = g2)) \<and>
   (\<not> (\<exists>g1 g2 t1 t2. set gs = {g1, g2} \<and> g1 \<noteq> g2 \<and>
         taxon (genome_objs h g1) = Some t1 \<and> taxon (genome_objs h g2) = Some t2 \<and>
         is_ancestor t1 t2) \<longrightarrow>
      HOGsMap_init h gs = Inl TypeError) \<and>
   HOGsMap_init h [g] = Inl TypeError \<and>
   HOGsMap_init h [g, g] = Inl TypeError \<and>
   (taxon (genome_objs h ga) = Some (i # p) \<and> taxon (genome_objs h gb) = Some (j # p) \<longrightarrow>
      HOGsMap_init h [ga, gb] = Inl TypeError)"
proof (intro conjI impI)
  assume "HOGsMap_init h gs = Inr m"
  from HOGsMap_init_accepts [OF this]
  show "\<exists>g1 g2 t1 t2. set gs = {g1, g2} \<and> g1 \<noteq> g2 \<and>
         taxon (genome_objs h g1) = Some t1 \<and> taxon (genome_objs h g2) = Some t2 \<and>
         is_ancestor t1 t2 \<and> ancestor m = g1 \<and> descendant m = g2"
    by blast
next
  assume n: "\<not> (\<exists>g1 g2 t1 t2. set gs = {g1, g2} \<and> g1 \<noteq> g2 \<and>
         taxon (genome_objs h g1) = Some t1 \<and> taxon (genome_objs h g2) = Some t2 \<and>
         is_ancestor t1 t2)"
  show "HOGsMap_init h gs = Inl TypeError"
  proof (cases "HOGsMap_init h gs")
    case (Inl e)
    then show ?thesis using HOGsMap_init_error by blast
  next
    case (Inr m')
    from HOGsMap_init_accepts [OF this] n show ?thesis by blast
  qed
next
  show "HOGsMap_init h [g] = Inl TypeError" by (simp add: HOGsMap_init_def)
  show "HOGsMap_init h [g, g] = Inl TypeError" by (simp add: HOGsMap_init_def)
next
  assume "taxon (genome_objs h ga) = Some (i # p) \<and> taxon (genome_objs h gb) = Some (j # p)"
  then show "HOGsMap_init h [ga, gb] = Inl TypeError"
    using HOGsMap_init_siblings by blast
qed


lemma enclosing_hog_member:
  "enclosing_hog h g a = Some p \<Longrightarrow> p \<in> set (genes (genome_objs h g))"
  by (auto simp: enclosing_hog_def split: option.splits if_splits)

lemma map_up_member:
  "map_up h anc tanc tdesc a = Some hog \<Longrightarrow> hog \<in> set (genes (genome_objs h anc))"
  by (auto simp: map_up_def split: option.splits dest: enclosing_hog_member)

lemma mapped_genes_set:
  "set (mapped_genes u ds hog) = {a \<in> set ds. u a = Some hog}"
  by (auto simp: mapped_genes_def)

lemma mapped_genes_mem: "a \<in> set (mapped_genes u ds hog) \<longleftrightarrow> a \<in> set ds \<and> u a = Some hog"
  by (simp add: mapped_genes_set)

lemma build_maps_GAIN:
  "GAIN (build_maps h anc tanc desc tdesc) =
     {a \<in> set (genes (genome_objs h desc)). map_up h anc tanc tdesc a = None}"
  by (auto simp: build_maps_def Let_def)

lemma build_maps_LOSS:
  "LOSS (build_maps h anc tanc desc tdesc) =
     {hog \<in> set (genes (genome_objs h anc)).
        mapped_genes (map_up h anc tanc tdesc) (genes (genome_objs h desc)) hog = []}"
  by (auto simp: build_maps_def Let_def)

lemma build_maps_SINGLE:
  "SINGLE (build_maps h anc tanc desc tdesc) hog = Some x \<longleftrightarrow>
     hog \<in> set (genes (genome_objs h anc)) \<and>
     mapped_genes (map_up h anc tanc tdesc) (genes (genome_objs h desc)) hog = [x]"
  by (auto simp: build_maps_def Let_def split: list.splits)

lemma build_maps_DUPLICATE:
  "DUPLICATE (build_maps h anc tanc desc tdesc) hog = Some s \<longleftrightarrow>
     hog \<in> set (genes (genome_objs h anc)) \<and>
     2 \<le> length (mapped_genes (map_up h anc tanc tdesc) (genes (genome_objs h desc)) hog) \<and>
     s = set (mapped_genes (map_up h anc tanc tdesc) (genes (genome_objs h desc)) hog)"
  by (auto simp: build_maps_def Let_def)

lemma build_maps_hog_class:
  assumes "hog \<in> set (genes (genome_objs h anc))"
  shows "exactly_one (hog \<in> LOSS (build_maps h anc tanc desc tdesc))
           (hog \<in> dom (SINGLE (build_maps h anc tanc desc tdesc)))
           (hog \<in> dom (DUPLICATE (build_maps h anc tanc desc tdesc)))"
proof -
  let ?D = "mapped_genes (map_up h anc tanc tdesc) (genes (genome_objs h desc)) hog"
  have l: "hog \<in> LOSS (build_maps h anc tanc desc tdesc) \<longleftrightarrow> ?D = []"
    using assms by (simp add: build_maps_LOSS)
  have s: "hog \<in> dom (SINGLE (build_maps h anc tanc desc tdesc)) \<longleftrightarrow> (\<exists>x. ?D = [x])"
    using assms by (auto simp: dom_def build_maps_SINGLE)
  have d: "hog \<in> dom (DUPLICATE (build_maps h anc tanc desc tdesc)) \<longleftrightarrow> 2 \<le> length ?D"
    using assms by (auto simp: dom_def build_maps_DUPLICATE)
  show ?thesis
  proof (cases ?D)
    case Nil
    then show ?thesis unfolding l s d exactly_one_def by simp
  next
    case (Cons x xs)
    then show ?thesis unfolding l s d exactly_one_def by (cases xs) simp_all
  qed
qed

lemma build_maps_gene_class:
  assumes "a \<in> set (genes (genome_objs h desc))"
  shows "exactly_one (a \<in> GAIN (build_maps h anc tanc desc tdesc))
           (a \<in> ran (SINGLE (build_maps h anc tanc desc tdesc)))
           (\<exists>s \<in> ran (DUPLICATE (build_maps h anc tanc desc tdesc)). a \<in> s)"
proof -
  let ?u = "map_up h anc tanc tdesc"
  let ?ds = "genes (genome_objs h desc)"
  let ?m = "build_maps h anc tanc desc tdesc"
  have g: "a \<in> GAIN ?m \<longleftrightarrow> ?u a = None"
    using assms by (simp add: build_maps_GAIN)
  have s: "a \<in> ran (SINGLE ?m) \<longleftrightarrow>
      (\<exists>hog \<in> set (genes (genome_objs h anc)). mapped_genes ?u ?ds hog = [a])"
    by (auto simp: ran_def build_maps_SINGLE)
  have d: "(\<exists>s \<in> ran (DUPLICATE ?m). a \<in> s) \<longleftrightarrow>
      (\<exists>hog \<in> set (genes (genome_objs h anc)).
          2 \<le> length (mapped_genes ?u ?ds hog) \<and> a \<in> set (mapped_genes ?u ?ds hog))"
    by (auto simp: ran_def build_maps_DUPLICATE)
  show ?thesis
  proof (cases "?u a")
    case None
    have ns: "\<not> (\<exists>hog \<in> set (genes (genome_objs h anc)). mapped_genes ?u ?ds hog = [a])"
    proof
      assume "\<exists>hog \<in> set (genes (genome_objs h anc)). mapped_genes ?u ?ds hog = [a]"
      then obtain hog where "mapped_genes ?u ?ds hog = [a]" by blast
      then have "a \<in> set (mapped_genes ?u ?ds hog)" by simp
      with None show False by (simp add: mapped_genes_mem)
    qed
    have nd: "\<not> (\<exists>hog \<in> set (genes (genome_objs h anc)).
          2 \<le> length (mapped_genes ?u ?ds hog) \<and> a \<in> set (mapped_genes ?u ?ds hog))"
      using None by (simp add: mapped_genes_mem)
    from None ns nd show ?thesis unfolding g s d exactly_one_def by simp
  next
    case (Some hog0)
    then have h0: "hog0 \<in> set (genes (genome_objs h anc))" by (rule map_up_member)
    from Some assms have a0: "a \<in> set (mapped_genes ?u ?ds hog0)"
      by (simp add: mapped_genes_mem)
    have only: "hog = hog0" if "a \<in> set (mapped_genes ?u ?ds hog)" for hog
      using that Some by (simp add: mapped_genes_mem)
    have dist: "distinct (mapped_genes ?u ?ds hog0)" by (simp add: mapped_genes_def)
    show ?thesis
    proof (cases "2 \<le> length (mapped_genes ?u ?ds hog0)")
      case True
      have ns: "\<not> (\<exists>hog \<in> set (genes (genome_objs h anc)). mapped_genes ?u ?ds hog = [a])"
      proof
        assume "\<exists>hog \<in> set (genes (genome_objs h anc)). mapped_genes ?u ?ds hog = [a]"
        then obtain hog where e: "mapped_genes ?u ?ds hog = [a]" by blast
        then have "a \<in> set (mapped_genes ?u ?ds hog)" by simp
        then have "hog = hog0" by (rule only)
        with e True show False by simp
      qed
      have yd: "\<exists>hog \<in> set (genes (genome_objs h anc)).
          2 \<le> length (mapped_genes ?u ?ds hog) \<and> a \<in> set (mapped_genes ?u ?ds hog)"
        using h0 True a0 by blast
      from Some ns yd show ?thesis unfolding g s d exactly_one_def by simp
    next
      case False
      with a0 have e: "mapped_genes ?u ?ds hog0 = [a]"
        by (cases "mapped_genes ?u ?ds hog0") (auto simp: Suc_le_eq)
      have ys: "\<exists>hog \<in> set (genes (genome_objs h anc)). mapped_genes ?u ?ds hog = [a]"
        using h0 e by blast
      have nd: "\<not> (\<exists>hog \<in> set (genes (genome_objs h anc)).
          2 \<le> length (mapped_genes ?u ?ds hog) \<and> a \<in> set (mapped_genes ?u ?ds hog))"
        using only False by blast
      from Some ys nd show ?thesis unfolding g s d exactly_one_def by simp
    qed
  qed
qed

text \<open>
  C1: for every map the constructor accepts, every HOG of the ancestor genome is in
  exactly one of \<open>LOSS\<close>, the keys of \<open>SINGLE\<close> and the keys of \<open>DUPLICATE\<close>, and every gene
  of the descendant genome is in exactly one of \<open>GAIN\<close>, the values of \<open>SINGLE\<close> and the
  sets of \<open>DUPLICATE\<close>; the three classes of each side hold nothing else.
\<close>

theorem HOGsMap_partition:
  "HOGsMap_init h gs = Inr m \<Longrightarrow>
     (\<forall>hog \<in> set (genes (genome_objs h (ancestor m))).
        exactly_one (hog \<in> LOSS m) (hog \<in> dom (SINGLE m)) (hog \<in> dom (DUPLICATE m))) \<and>
     (\<forall>a \<in> set (genes (genome_objs h (descendant m))).
        exactly_one (a \<in> GAIN m) (a \<in> ran (SINGLE m)) (\<exists>s \<in> ran (DUPLICATE m). a \<in> s)) \<and>
     LOSS m \<union> dom (SINGLE m) \<union> dom (DUPLICATE m) = set (genes (genome_objs h (ancestor m))) \<and>
     GAIN m \<union> ran (SINGLE m) \<union> \<Union> (ran (DUPLICATE m))
       = set (genes (genome_objs h (descendant m)))"
proof -
  assume "HOGsMap_init h gs = Inr m"
  from HOGsMap_init_accepts [OF this] obtain g1 t1 g2 t2
    where m: "m = build_maps h g1 t1 g2 t2" and a: "ancestor m = g1" and d: "descendant m = g2"
    by blast
  have 1: "\<forall>hog \<in> set (genes (genome_objs h (ancestor m))).
        exactly_one (hog \<in> LOSS m) (hog \<in> dom (SINGLE m)) (hog \<in> dom (DUPLICATE m))"
    unfolding a unfolding m by (blast intro: build_maps_hog_class)
  have 2: "\<forall>a \<in> set (genes (genome_objs h (descendant m))).
        exactly_one (a \<in> GAIN m) (a \<in> ran (SINGLE m)) (\<exists>s \<in> ran (DUPLICATE m). a \<in> s)"
    unfolding d unfolding m by (blast intro: build_maps_gene_class)
  have 3: "LOSS m \<union> dom (SINGLE m) \<union> dom (DUPLICATE m)
      \<subseteq> set (genes (genome_objs h (ancestor m)))"
    unfolding a unfolding m
    by (auto simp: build_maps_LOSS build_maps_SINGLE build_maps_DUPLICATE)
  have 4: "GAIN m \<union> ran (SINGLE m) \<union> \<Union> (ran (DUPLICATE m))
      \<subseteq> set (genes (genome_objs h (descendant m)))"
  proof -
    have "x \<in> set (genes (genome_objs h g2))"
      if "mapped_genes (map_up h g1 t1 t2) (genes (genome_objs h g2)) hog = [x]" for x hog
    proof -
      from that have "x \<in> set (mapped_genes (map_up h g1 t1 t2) (genes (genome_objs h g2)) hog)"
        by simp
      then show ?thesis by (simp add: mapped_genes_mem)
    qed
    then show ?thesis
      unfolding d unfolding m
      by (auto simp: build_maps_GAIN ran_def build_maps_SINGLE build_maps_DUPLICATE
            mapped_genes_mem)
  qed
  from 1 have 5: "set (genes (genome_objs h (ancestor m)))
      \<subseteq> LOSS m \<union> dom (SINGLE m) \<union> dom (DUPLICATE m)"
    unfolding exactly_one_def by blast
  from 2 have 6: "set (genes (genome_objs h (descendant m)))
      \<subseteq> GAIN m \<union> ran (SINGLE m) \<union> \<Union> (ran (DUPLICATE m))"
    unfolding exactly_one_def by blast
  from 3 5 have 7: "LOSS m \<union> dom (SINGLE m) \<union> dom (DUPLICATE m)
      = set (genes (genome_objs h (ancestor m)))"
    by (rule subset_antisym)
  from 4 6 have 8: "GAIN m \<union> ran (SINGLE m) \<union> \<Union> (ran (DUPLICATE m))
      = set (genes (genome_objs h (descendant m)))"
    by (rule subset_antisym)
  from 1 2 7 8 show ?thesis by blast
qed

section \<open>The maps of the fixture\<close>

lemmas fixture_defs =
  fixture_def fixture_genomes_def fixture_genes_def gene_obj_def hog_obj_def
  extant_genome_def ancestral_genome_def unattached_genome_def
  n_vertebrates_def n_euarchontoglires_def n_xentr_def n_primates_def n_rodents_def
  n_human_def n_pantr_def n_mouse_def

lemma init_human_vertebrates: "HOGsMap_init fixture [0, 5] = Inr map_human_vertebrates"
  by (simp add: HOGsMap_init_def map_human_vertebrates_def is_ancestor_def
        fixture_def fixture_genomes_def extant_genome_def ancestral_genome_def
        n_human_def n_vertebrates_def)

lemma init_mouse_vertebrates: "HOGsMap_init fixture [1, 5] = Inr map_mouse_vertebrates"
  by (simp add: HOGsMap_init_def map_mouse_vertebrates_def is_ancestor_def
        fixture_def fixture_genomes_def extant_genome_def ancestral_genome_def
        n_mouse_def n_vertebrates_def)

lemma frog_primates_unrelated:
  "\<not> (\<exists>g1 g2 t1 t2. set [6, 2] = {g1, g2} \<and> g1 \<noteq> g2 \<and>
         taxon (genome_objs fixture g1) = Some t1 \<and> taxon (genome_objs fixture g2) = Some t2 \<and>
         is_ancestor t1 t2)"
  by (auto simp: doubleton_eq_iff fixture_defs is_ancestor_def)

theorem HOGsMap_init_lineage_witness:
  "HOGsMap_init fixture [0, 5] = Inr map_human_vertebrates \<and>
   (\<exists>g1 g2 t1 t2. set [0, 5] = {g1, g2} \<and> g1 \<noteq> g2 \<and>
       taxon (genome_objs fixture g1) = Some t1 \<and> taxon (genome_objs fixture g2) = Some t2 \<and>
       is_ancestor t1 t2 \<and> ancestor map_human_vertebrates = g1 \<and>
       descendant map_human_vertebrates = g2) \<and>
   \<not> (\<exists>g1 g2 t1 t2. set [6, 2] = {g1, g2} \<and> g1 \<noteq> g2 \<and>
       taxon (genome_objs fixture g1) = Some t1 \<and> taxon (genome_objs fixture g2) = Some t2 \<and>
       is_ancestor t1 t2) \<and>
   HOGsMap_init fixture [6, 2] = Inl TypeError \<and>
   HOGsMap_init fixture [0] = Inl TypeError \<and>
   HOGsMap_init fixture [0, 0] = Inl TypeError \<and>
   taxon (genome_objs fixture 2) = Some [0, 0] \<and>
   taxon (genome_objs fixture 3) = Some [1, 0] \<and>
   HOGsMap_init fixture [2, 3] = Inl TypeError"
proof -
  have p: "taxon (genome_objs fixture 2) = Some (0 # [0])"
    by (simp add: fixture_defs)
  have r: "taxon (genome_objs fixture 3) = Some (1 # [0])"
    by (simp add: fixture_defs)
  note a = HOGsMap_init_lineage
    [where h = fixture and gs = "[0, 5]" and m = map_human_vertebrates and g = 0
       and ga = 2 and gb = 3 and i = 0 and j = 1 and p = "[0]"]
  note b = HOGsMap_init_lineage
    [where h = fixture and gs = "[6, 2]" and m = map_human_vertebrates and g = 0
       and ga = 2 and gb = 3 and i = 0 and j = 1 and p = "[0]"]
  from a init_human_vertebrates
  have 1: "\<exists>g1 g2 t1 t2. set [0, 5] = {g1, g2} \<and> g1 \<noteq> g2 \<and>
       taxon (genome_objs fixture g1) = Some t1 \<and> taxon (genome_objs fixture g2) = Some t2 \<and>
       is_ancestor t1 t2 \<and> ancestor map_human_vertebrates = g1 \<and>
       descendant map_human_vertebrates = g2"
    by blast
  from b frog_primates_unrelated
  have 2: "HOGsMap_init fixture [6, 2] = Inl TypeError" by blast
  from a have 3: "HOGsMap_init fixture [0] = Inl TypeError"
    and 4: "HOGsMap_init fixture [0, 0] = Inl TypeError"
    by blast+
  from a p r have 5: "HOGsMap_init fixture [2, 3] = Inl TypeError" by blast
  from init_human_vertebrates 1 frog_primates_unrelated 2 3 4 p r 5
  show ?thesis by simp
qed

lemma mouse_up_31: "map_up fixture 5 n_vertebrates n_mouse 31 = Some 501"
  by (simp add: map_up_def get_path_up_def enclosing_hog_def fixture_defs)

lemma mouse_up_32: "map_up fixture 5 n_vertebrates n_mouse 32 = None"
  by (simp add: map_up_def get_path_up_def enclosing_hog_def fixture_defs)

lemma mouse_up_33: "map_up fixture 5 n_vertebrates n_mouse 33 = Some 503"
  by (simp add: map_up_def get_path_up_def enclosing_hog_def fixture_defs)

lemma mouse_up_34: "map_up fixture 5 n_vertebrates n_mouse 34 = Some 503"
  by (simp add: map_up_def get_path_up_def enclosing_hog_def fixture_defs)

lemmas mouse_up = mouse_up_31 mouse_up_32 mouse_up_33 mouse_up_34

lemma mouse_genes: "genes (genome_objs fixture (Suc 0)) = [31, 32, 33, 34]"
  by (simp add: fixture_defs)

lemma vertebrates_hogs: "genes (genome_objs fixture 5) = [501, 503]"
  by (simp add: fixture_defs)

lemma mouse_mapped_501:
  "mapped_genes (map_up fixture 5 n_vertebrates n_mouse) [31, 32, 33, 34] 501 = [31]"
  by (simp add: mapped_genes_def mouse_up)

lemma mouse_mapped_503:
  "mapped_genes (map_up fixture 5 n_vertebrates n_mouse) [31, 32, 33, 34] 503 = [33, 34]"
  by (simp add: mapped_genes_def mouse_up)

lemma mouse_GAIN: "GAIN map_mouse_vertebrates = {32}"
  by (auto simp: map_mouse_vertebrates_def build_maps_def Let_def mouse_genes
        vertebrates_hogs mouse_up)

lemma mouse_LOSS: "LOSS map_mouse_vertebrates = {}"
  by (auto simp: map_mouse_vertebrates_def build_maps_def Let_def mouse_genes
        vertebrates_hogs mouse_mapped_501 mouse_mapped_503)

lemma mouse_SINGLE: "SINGLE map_mouse_vertebrates 501 = Some 31"
  by (simp add: map_mouse_vertebrates_def build_maps_def Let_def mouse_genes
        vertebrates_hogs mouse_mapped_501)

lemma mouse_DUPLICATE: "DUPLICATE map_mouse_vertebrates 503 = Some {33, 34}"
  by (simp add: map_mouse_vertebrates_def build_maps_def Let_def mouse_genes
        vertebrates_hogs mouse_mapped_503)

theorem HOGsMap_partition_witness:
  "HOGsMap_init fixture [1, 5] = Inr map_mouse_vertebrates \<and>
   genes (genome_objs fixture (ancestor map_mouse_vertebrates)) = [501, 503] \<and>
   genes (genome_objs fixture (descendant map_mouse_vertebrates)) = [31, 32, 33, 34] \<and>
   exactly_one (501 \<in> LOSS map_mouse_vertebrates)
     (501 \<in> dom (SINGLE map_mouse_vertebrates)) (501 \<in> dom (DUPLICATE map_mouse_vertebrates)) \<and>
   exactly_one (503 \<in> LOSS map_mouse_vertebrates)
     (503 \<in> dom (SINGLE map_mouse_vertebrates)) (503 \<in> dom (DUPLICATE map_mouse_vertebrates)) \<and>
   exactly_one (33 \<in> GAIN map_mouse_vertebrates)
     (33 \<in> ran (SINGLE map_mouse_vertebrates))
     (\<exists>s \<in> ran (DUPLICATE map_mouse_vertebrates). 33 \<in> s) \<and>
   LOSS map_mouse_vertebrates \<union> dom (SINGLE map_mouse_vertebrates)
       \<union> dom (DUPLICATE map_mouse_vertebrates) = {501, 503} \<and>
   GAIN map_mouse_vertebrates \<union> ran (SINGLE map_mouse_vertebrates)
       \<union> \<Union> (ran (DUPLICATE map_mouse_vertebrates)) = {31, 32, 33, 34} \<and>
   LOSS map_mouse_vertebrates = {} \<and>
   GAIN map_mouse_vertebrates = {32} \<and>
   SINGLE map_mouse_vertebrates 501 = Some 31 \<and>
   DUPLICATE map_mouse_vertebrates 503 = Some {33, 34}"
proof -
  have a: "genes (genome_objs fixture (ancestor map_mouse_vertebrates)) = [501, 503]"
    by (simp add: map_mouse_vertebrates_def build_maps_ancestor vertebrates_hogs)
  have d: "genes (genome_objs fixture (descendant map_mouse_vertebrates)) = [31, 32, 33, 34]"
    by (simp add: map_mouse_vertebrates_def build_maps_descendant mouse_genes)
  note p = HOGsMap_partition [OF init_mouse_vertebrates, unfolded a d]
  from p have 1: "exactly_one (501 \<in> LOSS map_mouse_vertebrates)
     (501 \<in> dom (SINGLE map_mouse_vertebrates)) (501 \<in> dom (DUPLICATE map_mouse_vertebrates))"
    by simp
  from p have 2: "exactly_one (503 \<in> LOSS map_mouse_vertebrates)
     (503 \<in> dom (SINGLE map_mouse_vertebrates)) (503 \<in> dom (DUPLICATE map_mouse_vertebrates))"
    by simp
  from p have 3: "exactly_one (33 \<in> GAIN map_mouse_vertebrates)
     (33 \<in> ran (SINGLE map_mouse_vertebrates))
     (\<exists>s \<in> ran (DUPLICATE map_mouse_vertebrates). 33 \<in> s)"
    by simp
  from p have 4: "LOSS map_mouse_vertebrates \<union> dom (SINGLE map_mouse_vertebrates)
       \<union> dom (DUPLICATE map_mouse_vertebrates) = {501, 503}"
    by simp
  from p have 5: "GAIN map_mouse_vertebrates \<union> ran (SINGLE map_mouse_vertebrates)
       \<union> \<Union> (ran (DUPLICATE map_mouse_vertebrates)) = {31, 32, 33, 34}"
    by simp
  from init_mouse_vertebrates a d 1 2 3 4 5 mouse_LOSS mouse_GAIN mouse_SINGLE mouse_DUPLICATE
  show ?thesis by blast
qed


end
